theory Spec2Isabelle
  imports Main "HOL-Library.AList" "HOL-Library.Char_ord" "HOL-Library.List_Lexorder"
    "HOL-Library.Multiset" "HOL-Library.Product_Lexorder"
begin

section \<open>JavaScript values used by the SiteSearch page\<close>

text \<open>
  Strings are \<^typ>\<open>string\<close>, read as sequences of code points below 256. A value of type
  \<open>string | null | undefined\<close> is a \<^typ>\<open>string option\<close>: \<open>None\<close> stands for both
  \<open>null\<close> and \<open>undefined\<close>, which the page never tells apart (it only tests truthiness).
\<close>

text \<open>\<open>x || d\<close> for an optional string \<open>x\<close>: the empty string is falsy.\<close>

definition or_else :: "string option \<Rightarrow> string \<Rightarrow> string" where
  "or_else x d = (case x of None \<Rightarrow> d | Some v \<Rightarrow> if v = [] then d else v)"

text \<open>\<open>s || null\<close> for a string \<open>s\<close>.\<close>

definition or_null :: "string \<Rightarrow> string option" where
  "or_null s = (if s = [] then None else Some s)"

text \<open>
  \<open>String.prototype.trim\<close>: the white space and line terminators of ECMAScript that lie
  below code point 256 (TAB, LF, VT, FF, CR, SP, NBSP).
\<close>

definition is_space :: "char \<Rightarrow> bool" where
  "is_space c = (c \<in> set [CHR 0x09, CHR 0x0A, CHR 0x0B, CHR 0x0C, CHR 0x0D, CHR 0x20, CHR 0xA0])"

definition trim :: "string \<Rightarrow> string" where
  "trim s = rev (dropWhile is_space (rev (dropWhile is_space s)))"

section \<open>Tabs and rows\<close>

definition TAB_TABLE_MAP :: "(string \<times> string) list" where
  "TAB_TABLE_MAP =
     [(''Enclosure'', ''enclosure_assets''),
      (''RAN-Active'', ''ran_active_assets''),
      (''RAN-Passive'', ''ran_passive_assets''),
      (''MW-Active'', ''mw_active_assets''),
      (''MW-Passive'', ''mw_passive_assets'')]"

text \<open>
  \<open>TAB_TABLE_MAP[tab]\<close>. A tab that is no key gives \<open>undefined\<close>, which both the storage
  path template and the request URL print as the text \<open>undefined\<close>.
\<close>

definition table_of :: "string \<Rightarrow> string" where
  "table_of tab = (case map_of TAB_TABLE_MAP tab of Some t \<Rightarrow> t | None \<Rightarrow> ''undefined'')"

definition TABS :: "string list" where
  "TABS = [''Enclosure'', ''RAN-Active'', ''RAN-Passive'', ''MW-Active'', ''MW-Passive'']"

text \<open>
  \<open>interface AssetRow\<close>. The column \<open>category\<close> is not declared there: it travels under
  the index signature \<open>[key: string]: unknown\<close>, and \<open>handleAddNewRow\<close> writes it.
\<close>

record AssetRow =
  row_id :: string
  site_id :: string
  date_text :: "string option"
  equipment_type :: "string option"
  product_name :: "string option"
  product_number :: "string option"
  serial :: "string option"
  tag :: "string option"
  status :: "string option"
  remarks :: "string option"
  category :: "string option"

text \<open>
  \<open>interface EditableRow extends AssetRow\<close>: the draft copy of each editable column (the
  source's \<open>_equipment_type\<close> is \<open>draft_equipment_type\<close> here, and so on) and the two
  flags \<open>_editing\<close> and \<open>_saving\<close>.
\<close>

record EditableRow = AssetRow +
  editing :: "bool option"
  saving :: "bool option"
  draft_equipment_type :: "string option"
  draft_product_name :: "string option"
  draft_product_number :: "string option"
  draft_serial :: "string option"
  draft_tag :: "string option"
  draft_status :: "string option"
  draft_remarks :: "string option"

text \<open>
  The object literal of \<open>handleSearch\<close> and \<open>refreshTabData\<close>:
  \<open>{...row, _equipment_type: row.equipment_type || '', ...}\<close>.
\<close>

definition toEditable :: "AssetRow \<Rightarrow> EditableRow" where
  "toEditable row =
     AssetRow.extend row
       (EditableRow.fields None None
          (Some (or_else (equipment_type row) ''''))
          (Some (or_else (product_name row) ''''))
          (Some (or_else (product_number row) ''''))
          (Some (or_else (serial row) ''''))
          (Some (or_else (tag row) ''''))
          (Some (or_else (status row) ''''))
          (Some (or_else (remarks row) '''')))"

section \<open>The backend service\<close>

text \<open>
  The page talks to a hosted backend through a client library: relational tables, an
  object store and change-notification channels. The library is not part of the
  repository; what follows is the behaviour of the service that the page relies on. Every
  request is recorded in \<open>calls\<close>, and \<open>outage\<close> says which requests the service answers
  with an error (and with which message). A request that fails is answered with an error
  object, as the client library does also for a failure of the network; logging to the
  console is left out.
\<close>

datatype PhotoType = Serial | Tag

fun photo_type_text :: "PhotoType \<Rightarrow> string" where
  "photo_type_text Serial = ''serial''"
| "photo_type_text Tag = ''tag''"

text \<open>A row of the table \<open>asset_photos\<close>, with the columns either page writes.\<close>

record PhotoRow =
  photo_id :: string
  asset_id :: string
  asset_table :: "string option"
  photo_type :: PhotoType
  storage_path :: string
  public_url :: "string option"
  taken_at :: "string option"
  taken_by :: "string option"

text \<open>\<open>interface AssetPhoto\<close> of the page: the row and the signed URL computed at run time.\<close>

record AssetPhoto = PhotoRow +
  signedUrl :: "string option"

text \<open>The browser's \<open>File\<close>: its name and its bytes.\<close>

record File =
  file_name :: string
  file_bytes :: string

text \<open>The object passed to \<open>update\<close> by \<open>handleSaveRow\<close>; a key whose value is
  \<open>undefined\<close> (\<open>None\<close>) is left out of the request body.\<close>

record AssetUpdate =
  upd_equipment_type :: "string option"
  upd_product_name :: "string option"
  upd_product_number :: "string option"
  upd_serial :: "string option"
  upd_tag :: "string option"
  upd_status :: "string option"
  upd_remarks :: "string option"

text \<open>The object passed to \<open>insert\<close> by \<open>handleAddNewRow\<close>; \<open>None\<close> is \<open>null\<close>.\<close>

record AssetInsert =
  ins_site_id :: string
  ins_date_text :: string
  ins_category :: string
  ins_equipment_type :: string
  ins_product_name :: string
  ins_product_number :: "string option"
  ins_serial :: string
  ins_tag :: string
  ins_status :: string
  ins_remarks :: "string option"

text \<open>The object passed to \<open>insert\<close> on \<open>asset_photos\<close> by \<open>handlePhotoUpload\<close>.\<close>

record PhotoInsert =
  pin_asset_id :: string
  pin_asset_table :: string
  pin_photo_type :: PhotoType
  pin_storage_path :: string
  pin_taken_at :: string
  pin_taken_by :: "string option"

text \<open>The object passed to \<open>upsert\<close> on \<open>asset_photos\<close> by \<open>uploadPhoto\<close> of the asset
  drawer, with \<open>onConflict: 'asset_id,photo_type'\<close>.\<close>

record PhotoUpsert =
  pup_asset_id :: string
  pup_photo_type :: PhotoType
  pup_storage_path :: string
  pup_public_url :: string

record CatalogRow =
  cat_product_name :: string
  cat_product_number :: "string option"
  cat_category :: "string option"
  cat_equipment_type :: "string option"

record ProductNameRow =
  pn_category :: string
  pn_equipment_type :: string
  pn_product_name :: "string option"

record EquipmentTypeRow =
  et_category :: string
  et_equipment_type :: "string option"

text \<open>
  The requests the handlers send: the rows of a site in an asset table, ordered by
  \<open>date_text\<close> descending; the update of the row with an id; the insert of a row; the
  photos of some tables and assets; the insert and the upsert of a photo record; the upload of
  a file to a path of the bucket, replacing what is there; a signed URL for a path, valid
  some seconds; and the lookups.
\<close>

datatype request =
    SelectAssets string string
  | UpdateAsset string string AssetUpdate
  | InsertAsset string AssetInsert
  | SelectPhotos "string list" "string list"
  | InsertPhoto PhotoInsert
  | UpsertPhoto PhotoUpsert
  | StorageUpload string File
  | CreateSignedUrl string nat
  | SelectEquipmentTypes string
  | SelectProductNames string string
  | SelectTagStatus
  | SelectProductNumber string "string option" "string option"

text \<open>
  A listener of a change-notification channel. The callback closures of
  \<open>setupRealtimeSubscriptions\<close> are kept as data: \<open>RefreshTab tab site\<close> is
  \<open>(payload) => refreshTabData(tab, siteIdParam)\<close> and \<open>ReloadPhotos assets\<close> is
  \<open>(payload) => loadPhotosForAssets(assets)\<close>.
\<close>

datatype Callback = RefreshTab string string | ReloadPhotos "(string \<times> string) list"

record Listener =
  on_event :: string
  on_table :: string
  on_filter :: "string option"
  callback :: Callback

text \<open>A channel object; \<open>channel_ref\<close> is its identity.\<close>

record Channel =
  channel_ref :: nat
  channel_name :: string
  listeners :: "Listener list"
  subscribed :: bool

text \<open>
  The state of the service: the asset tables by name, the photo table and whether it is
  declared \<open>UNIQUE(asset_id, photo_type)\<close>, the objects of the bucket by path, the catalog and
  the lookup views, the ids the database hands out (\<open>uuid\<close> of the number \<open>issued\<close>), the
  failures, the log of requests, and the channels the client has open.
\<close>

record Backend =
  asset_tables :: "string \<Rightarrow> AssetRow list"
  asset_photos :: "PhotoRow list"
  photo_unique :: bool
  bucket :: "string \<rightharpoonup> string"
  product_catalog :: "CatalogRow list"
  v_equipment_types :: "EquipmentTypeRow list"
  v_product_names :: "ProductNameRow list"
  v_tag_status :: "string option list"
  uuid :: "nat \<Rightarrow> string"
  issued :: nat
  outage :: "request \<Rightarrow> string option"
  calls :: "request list"
  channels :: "Channel list"
  channel_count :: nat

text \<open>Sending a request: it is recorded, and the service says whether it fails.\<close>

definition send :: "request \<Rightarrow> Backend \<Rightarrow> string option \<times> Backend" where
  "send r b = (outage b r, b\<lparr>calls := calls b @ [r]\<rparr>)"

text \<open>
  \<open>ORDER BY date_text DESC\<close>: text order, greatest first, and \<open>NULL\<close> before every text
  (the default of the database for a descending order).
\<close>

definition null_first :: "string option \<Rightarrow> nat \<times> string" where
  "null_first d = (case d of None \<Rightarrow> (1, []) | Some t \<Rightarrow> (0, t))"

definition order_desc :: "AssetRow list \<Rightarrow> AssetRow list" where
  "order_desc rows = rev (sort_key (\<lambda>r. null_first (date_text r)) rows)"

text \<open>\<open>from(table).select('*').eq('site_id', q).order('date_text', {ascending: false})\<close>\<close>

definition select_assets ::
    "string \<Rightarrow> string \<Rightarrow> Backend \<Rightarrow> (string + AssetRow list) \<times> Backend" where
  "select_assets table q b =
     (case send (SelectAssets table q) b of
        (Some m, b') \<Rightarrow> (Inl m, b')
      | (None, b') \<Rightarrow>
          (Inr (order_desc (filter (\<lambda>r. site_id r = q) (asset_tables b table))), b'))"

text \<open>\<open>from(table).update(payload).eq('id', id)\<close>: the keys present in the body are written
  to every row with that id.\<close>

definition apply_update :: "AssetUpdate \<Rightarrow> AssetRow \<Rightarrow> AssetRow" where
  "apply_update u r =
     r\<lparr>equipment_type := (case upd_equipment_type u of None \<Rightarrow> equipment_type r | Some v \<Rightarrow> Some v),
       product_name := (case upd_product_name u of None \<Rightarrow> product_name r | Some v \<Rightarrow> Some v),
       product_number := (case upd_product_number u of None \<Rightarrow> product_number r | Some v \<Rightarrow> Some v),
       serial := (case upd_serial u of None \<Rightarrow> serial r | Some v \<Rightarrow> Some v),
       tag := (case upd_tag u of None \<Rightarrow> tag r | Some v \<Rightarrow> Some v),
       status := (case upd_status u of None \<Rightarrow> status r | Some v \<Rightarrow> Some v),
       remarks := (case upd_remarks u of None \<Rightarrow> remarks r | Some v \<Rightarrow> Some v)\<rparr>"

definition update_asset ::
    "string \<Rightarrow> string \<Rightarrow> AssetUpdate \<Rightarrow> Backend \<Rightarrow> string option \<times> Backend" where
  "update_asset table rid u b =
     (case send (UpdateAsset table rid u) b of
        (Some m, b') \<Rightarrow> (Some m, b')
      | (None, b') \<Rightarrow>
          (None, b'\<lparr>asset_tables := (asset_tables b)
             (table := map (\<lambda>r. if row_id r = rid then apply_update u r else r)
                         (asset_tables b table))\<rparr>))"

text \<open>\<open>from(table).insert(payload).select().single()\<close>: the new row gets an id of the
  database's and is returned.\<close>

definition new_asset :: "string \<Rightarrow> AssetInsert \<Rightarrow> AssetRow" where
  "new_asset i p =
     \<lparr>row_id = i, site_id = ins_site_id p, date_text = Some (ins_date_text p),
      equipment_type = Some (ins_equipment_type p), product_name = Some (ins_product_name p),
      product_number = ins_product_number p, serial = Some (ins_serial p),
      tag = Some (ins_tag p), status = Some (ins_status p), remarks = ins_remarks p,
      category = Some (ins_category p)\<rparr>"

definition insert_asset ::
    "string \<Rightarrow> AssetInsert \<Rightarrow> Backend \<Rightarrow> (string + AssetRow) \<times> Backend" where
  "insert_asset table p b =
     (case send (InsertAsset table p) b of
        (Some m, b') \<Rightarrow> (Inl m, b')
      | (None, b') \<Rightarrow>
          (let r = new_asset (uuid b (issued b)) p
           in (Inr r, b'\<lparr>asset_tables := (asset_tables b)(table := asset_tables b table @ [r]),
                          issued := Suc (issued b)\<rparr>)))"

text \<open>\<open>from('asset_photos').select('*').in('asset_table', tables).in('asset_id', ids)\<close>\<close>

definition select_photos ::
    "string list \<Rightarrow> string list \<Rightarrow> Backend \<Rightarrow> (string + PhotoRow list) \<times> Backend" where
  "select_photos tables ids b =
     (case send (SelectPhotos tables ids) b of
        (Some m, b') \<Rightarrow> (Inl m, b')
      | (None, b') \<Rightarrow>
          (Inr (filter (\<lambda>p. (case asset_table p of None \<Rightarrow> False | Some t \<Rightarrow> t \<in> set tables)
                              \<and> asset_id p \<in> set ids) (asset_photos b)), b'))"

text \<open>
  Whether \<open>asset_photos\<close> carries \<open>UNIQUE(asset_id, photo_type)\<close> is a matter of the
  deployed schema (\<open>photo_unique\<close>): with it a second \<open>insert\<close> for a pair is refused, and
  without it an \<open>upsert\<close> with \<open>onConflict: 'asset_id,photo_type'\<close> is refused.
\<close>

definition same_pair :: "string \<Rightarrow> PhotoType \<Rightarrow> PhotoRow \<Rightarrow> bool" where
  "same_pair a t q = (asset_id q = a \<and> photo_type q = t)"

definition new_photo :: "string \<Rightarrow> PhotoInsert \<Rightarrow> PhotoRow" where
  "new_photo i p =
     \<lparr>photo_id = i, asset_id = pin_asset_id p, asset_table = Some (pin_asset_table p),
      photo_type = pin_photo_type p, storage_path = pin_storage_path p, public_url = None,
      taken_at = Some (pin_taken_at p), taken_by = pin_taken_by p\<rparr>"

definition insert_photo :: "PhotoInsert \<Rightarrow> Backend \<Rightarrow> string option \<times> Backend" where
  "insert_photo p b =
     (case send (InsertPhoto p) b of
        (Some m, b') \<Rightarrow> (Some m, b')
      | (None, b') \<Rightarrow>
          if photo_unique b \<and> list_ex (same_pair (pin_asset_id p) (pin_photo_type p)) (asset_photos b)
          then (Some ''duplicate key value violates unique constraint'', b')
          else (None, b'\<lparr>asset_photos := asset_photos b @ [new_photo (uuid b (issued b)) p],
                          issued := Suc (issued b)\<rparr>))"

definition upserted_photo :: "string \<Rightarrow> PhotoUpsert \<Rightarrow> PhotoRow" where
  "upserted_photo i p =
     \<lparr>photo_id = i, asset_id = pup_asset_id p, asset_table = None,
      photo_type = pup_photo_type p, storage_path = pup_storage_path p,
      public_url = Some (pup_public_url p), taken_at = None, taken_by = None\<rparr>"

definition upsert_photo :: "PhotoUpsert \<Rightarrow> Backend \<Rightarrow> string option \<times> Backend" where
  "upsert_photo p b =
     (case send (UpsertPhoto p) b of
        (Some m, b') \<Rightarrow> (Some m, b')
      | (None, b') \<Rightarrow>
          if \<not> photo_unique b
          then (Some ''there is no unique or exclusion constraint matching the ON CONFLICT specification'', b')
          else if list_ex (same_pair (pup_asset_id p) (pup_photo_type p)) (asset_photos b)
          then (None, b'\<lparr>asset_photos :=
                  map (\<lambda>q. if same_pair (pup_asset_id p) (pup_photo_type p) q
                            then q\<lparr>storage_path := pup_storage_path p,
                                   public_url := Some (pup_public_url p)\<rparr>
                            else q) (asset_photos b)\<rparr>)
          else (None, b'\<lparr>asset_photos := asset_photos b @ [upserted_photo (uuid b (issued b)) p],
                          issued := Suc (issued b)\<rparr>))"

text \<open>\<open>storage.from('asset-photos').upload(path, file, {upsert: true})\<close>: the object at the
  path is created or replaced.\<close>

definition storage_upload :: "string \<Rightarrow> File \<Rightarrow> Backend \<Rightarrow> string option \<times> Backend" where
  "storage_upload path f b =
     (case send (StorageUpload path f) b of
        (Some m, b') \<Rightarrow> (Some m, b')
      | (None, b') \<Rightarrow> (None, b'\<lparr>bucket := (bucket b)(path \<mapsto> file_bytes f)\<rparr>))"

text \<open>\<open>storage.from('asset-photos').createSignedUrl(path, seconds)\<close>\<close>

definition create_signed_url ::
    "string \<Rightarrow> nat \<Rightarrow> Backend \<Rightarrow> (string + string) \<times> Backend" where
  "create_signed_url path secs b =
     (case send (CreateSignedUrl path secs) b of
        (Some m, b') \<Rightarrow> (Inl m, b')
      | (None, b') \<Rightarrow>
          (case bucket b path of
             None \<Rightarrow> (Inl ''Object not found'', b')
           | Some _ \<Rightarrow> (Inr (''signed:'' @ path), b')))"

text \<open>\<open>storage.from('asset-photos').getPublicUrl(path)\<close>: computed by the client, no request.\<close>

definition getPublicUrl :: "string \<Rightarrow> string" where
  "getPublicUrl path = ''public:'' @ path"

text \<open>\<open>from('v_equipment_types').select('equipment_type').eq('category', c)\<close>\<close>

definition select_equipment_types ::
    "string \<Rightarrow> Backend \<Rightarrow> (string + string option list) \<times> Backend" where
  "select_equipment_types c b =
     (case send (SelectEquipmentTypes c) b of
        (Some m, b') \<Rightarrow> (Inl m, b')
      | (None, b') \<Rightarrow>
          (Inr (map et_equipment_type (filter (\<lambda>r. et_category r = c) (v_equipment_types b))), b'))"

text \<open>\<open>from('v_tag_status').select('tag_status')\<close>\<close>

definition select_tag_status :: "Backend \<Rightarrow> (string + string option list) \<times> Backend" where
  "select_tag_status b =
     (case send SelectTagStatus b of
        (Some m, b') \<Rightarrow> (Inl m, b')
      | (None, b') \<Rightarrow> (Inr (v_tag_status b), b'))"

text \<open>\<open>from('v_product_names').select('product_name').eq('category', c).eq('equipment_type', e)\<close>\<close>

definition select_product_names ::
    "string \<Rightarrow> string \<Rightarrow> Backend \<Rightarrow> (string + string option list) \<times> Backend" where
  "select_product_names c e b =
     (case send (SelectProductNames c e) b of
        (Some m, b') \<Rightarrow> (Inl m, b')
      | (None, b') \<Rightarrow>
          (Inr (map pn_product_name
                  (filter (\<lambda>r. pn_category r = c \<and> pn_equipment_type r = e) (v_product_names b))), b'))"

text \<open>\<open>from('product_catalog').select('product_number').eq('product_name', n).limit(1)\<close>,
  with \<open>.eq('category', c)\<close> and \<open>.eq('equipment_type', e)\<close> when they are given.\<close>

definition select_product_number ::
    "string \<Rightarrow> string option \<Rightarrow> string option \<Rightarrow> Backend
       \<Rightarrow> (string + string option list) \<times> Backend" where
  "select_product_number n c e b =
     (case send (SelectProductNumber n c e) b of
        (Some m, b') \<Rightarrow> (Inl m, b')
      | (None, b') \<Rightarrow>
          (Inr (map cat_product_number
                  (take 1 (filter (\<lambda>r. cat_product_name r = n
                                       \<and> (case c of None \<Rightarrow> True | Some x \<Rightarrow> cat_category r = Some x)
                                       \<and> (case e of None \<Rightarrow> True | Some x \<Rightarrow> cat_equipment_type r = Some x))
                             (product_catalog b)))), b'))"

text \<open>
  Channels. \<open>open_channel\<close> is \<open>supabase.channel(name)\<close>, the \<open>on\<close> calls and
  \<open>subscribe\<close> taken together: a new channel object with its listeners is registered with
  the client. \<open>removeChannel\<close> unsubscribes a channel object and drops it.
\<close>

definition open_channel :: "string \<Rightarrow> Listener list \<Rightarrow> Backend \<Rightarrow> Channel \<times> Backend" where
  "open_channel name ls b =
     (let c = \<lparr>channel_ref = channel_count b, channel_name = name, listeners = ls,
               subscribed = True\<rparr>
      in (c, b\<lparr>channels := channels b @ [c], channel_count := Suc (channel_count b)\<rparr>))"

definition removeChannel :: "Channel \<Rightarrow> Backend \<Rightarrow> Backend" where
  "removeChannel c b = b\<lparr>channels := filter (\<lambda>d. channel_ref d \<noteq> channel_ref c) (channels b)\<rparr>"

text \<open>
  A change notification: the table, the event, and the \<open>site_id\<close> of the changed row when
  the table has that column. A listener hears it when table and event agree and its filter
  \<open>site_id=eq.X\<close>, if it has one, names the changed row's site.
\<close>

record Change =
  change_table :: string
  change_event :: string
  change_site :: "string option"

definition hears :: "Listener \<Rightarrow> Change \<Rightarrow> bool" where
  "hears l c =
     (on_table l = change_table c
      \<and> (on_event l = ''*'' \<or> on_event l = change_event c)
      \<and> (case on_filter l of
            None \<Rightarrow> True
          | Some f \<Rightarrow> (case change_site c of None \<Rightarrow> False | Some x \<Rightarrow> f = ''site_id=eq.'' @ x)))"

definition triggered :: "Backend \<Rightarrow> Change \<Rightarrow> Callback list" where
  "triggered b c =
     concat (map (\<lambda>ch. map callback (filter (\<lambda>l. hears l c) (listeners ch)))
                 (filter subscribed (channels b)))"

section \<open>The state of the SiteSearch page\<close>

text \<open>The form of the "add new row" panel (\<open>newRow\<close>).\<close>

record NewRow =
  new_equipment_type :: string
  new_product_name :: string
  new_product_number :: string
  new_serial :: string
  new_tag :: string
  new_status :: string
  new_remarks :: string

text \<open>
  The state variables and refs of the component that the handlers below read or write.
  An object used as a dictionary (\<open>Record<string, T>\<close>) is an association list in
  insertion order; \<open>{...prev, [k]: v}\<close> is \<^const>\<open>AList.update\<close>.
\<close>

record Page =
  searchQuery :: string
  siteId :: string
  activeTab :: string
  tabData :: "(string \<times> EditableRow list) list"
  tabCounts :: "(string \<times> nat) list"
  photos :: "(string \<times> AssetPhoto list) list"
  loading :: bool
  error :: "string option"
  hasSearched :: bool
  uploadingPhoto :: "string option"
  equipmentTypes :: "(string \<times> string list) list"
  productNames :: "(string \<times> string list) list"
  tagStatuses :: "string list"
  loadingDropdowns :: "string option"
  newRowSaving :: bool
  successMessage :: "string option"
  newRow :: NewRow
  newAssetId :: "string option"
  channelRef :: "Channel option"
  photoChannelRef :: "Channel option"

text \<open>
  The updater that seven handlers pass to \<open>setTabData\<close>:
  \<open>prev => ({...prev, [tab]: prev[tab]?.map(r => r.id === rowId ? f(r) : r) || []})\<close>.
\<close>

definition update_row ::
    "string \<Rightarrow> string \<Rightarrow> (EditableRow \<Rightarrow> EditableRow)
       \<Rightarrow> (string \<times> EditableRow list) list \<Rightarrow> (string \<times> EditableRow list) list" where
  "update_row tab rowId f prev =
     AList.update tab
       (case map_of prev tab of
          None \<Rightarrow> []
        | Some rows \<Rightarrow> map (\<lambda>r. if row_id r = rowId then f r else r) rows)
       prev"

section \<open>Searching and refreshing\<close>

text \<open>
  A handler is a function from the state of the page and of the backend to their state when
  the handler is done. Its requests are answered in the order in which it sends them
  (parallel requests in the order of their creation), and no other handler runs in between.
  A state update \<open>setX(prev => f(prev))\<close> applies \<open>f\<close> to the current state.
\<close>

text \<open>The five queries of \<open>handleSearch\<close>, one per tab; all of them are sent.\<close>

fun fetch_tabs ::
    "string list \<Rightarrow> string \<Rightarrow> Backend \<Rightarrow> (string \<times> (string + AssetRow list)) list \<times> Backend" where
  "fetch_tabs [] query b = ([], b)"
| "fetch_tabs (tab # tabs) query b =
     (case select_assets (table_of tab) query b of
        (r, b1) \<Rightarrow> (case fetch_tabs tabs query b1 of (rs, b2) \<Rightarrow> ((tab, r) # rs, b2)))"

text \<open>\<open>Promise.all\<close>: the results when every query succeeded, and otherwise the error thrown
  by a query that failed (the first of them in the order of the tabs).\<close>

fun Promise_all ::
    "(string \<times> (string + AssetRow list)) list \<Rightarrow> string + (string \<times> AssetRow list) list" where
  "Promise_all [] = Inr []"
| "Promise_all ((tab, Inl m) # rest) = Inl m"
| "Promise_all ((tab, Inr d) # rest) =
     (case Promise_all rest of Inl m \<Rightarrow> Inl m | Inr ds \<Rightarrow> Inr ((tab, d) # ds))"

definition with_url :: "PhotoRow \<Rightarrow> string \<Rightarrow> AssetPhoto" where
  "with_url photo u = PhotoRow.extend photo (AssetPhoto.fields (Some u))"

text \<open>The signed URLs of \<open>loadPhotosForAssets\<close>: a photo whose URL cannot be signed gets
  the empty string.\<close>

fun sign_all :: "PhotoRow list \<Rightarrow> Backend \<Rightarrow> AssetPhoto list \<times> Backend" where
  "sign_all [] b = ([], b)"
| "sign_all (photo # rest) b =
     (case create_signed_url (storage_path photo) 3600 b of
        (r, b1) \<Rightarrow>
          (case sign_all rest b1 of
             (qs, b2) \<Rightarrow> (with_url photo (case r of Inl m \<Rightarrow> [] | Inr u \<Rightarrow> u) # qs, b2)))"

text \<open>\<open>`${photo.asset_table}:${photo.asset_id}`\<close>; a \<open>null\<close> table prints as \<open>null\<close>.\<close>

definition photo_key :: "string option \<Rightarrow> string \<Rightarrow> string" where
  "photo_key t a = (case t of None \<Rightarrow> ''null'' | Some x \<Rightarrow> x) @ '':'' @ a"

definition push_photo ::
    "AssetPhoto \<Rightarrow> (string \<times> AssetPhoto list) list \<Rightarrow> (string \<times> AssetPhoto list) list" where
  "push_photo photo photoMap =
     (let key = photo_key (asset_table photo) (asset_id photo)
      in AList.update key ((case map_of photoMap key of None \<Rightarrow> [] | Some l \<Rightarrow> l) @ [photo]) photoMap)"

text \<open>\<open>[...new Set(xs)]\<close>: the first occurrence of each element, in order.\<close>

definition uniq :: "'a list \<Rightarrow> 'a list" where
  "uniq xs = rev (remdups (rev xs))"

definition loadPhotosForAssets ::
    "(string \<times> string) list \<Rightarrow> Page \<times> Backend \<Rightarrow> Page \<times> Backend" where
  "loadPhotosForAssets assets = (\<lambda>(s, b).
     if assets = [] then (s\<lparr>photos := []\<rparr>, b)
     else
       (case select_photos (uniq (map fst assets)) (map snd assets) b of
          (Inl m, b1) \<Rightarrow> (s, b1)
        | (Inr data, b1) \<Rightarrow>
            (case sign_all data b1 of
               (photosWithUrls, b2) \<Rightarrow> (s\<lparr>photos := fold push_photo photosWithUrls []\<rparr>, b2))))"

definition getAssetPhotos :: "Page \<Rightarrow> string \<Rightarrow> string \<Rightarrow> AssetPhoto list" where
  "getAssetPhotos s table assetId =
     (case map_of (photos s) (table @ '':'' @ assetId) of None \<Rightarrow> [] | Some l \<Rightarrow> l)"

definition refreshTabData :: "string \<Rightarrow> string \<Rightarrow> Page \<times> Backend \<Rightarrow> Page \<times> Backend" where
  "refreshTabData tab siteIdParam = (\<lambda>(s, b).
     (case select_assets (table_of tab) siteIdParam b of
        (Inl m, b1) \<Rightarrow> (s, b1)
      | (Inr data, b1) \<Rightarrow>
          (s\<lparr>tabData := AList.update tab (map toEditable data) (tabData s),
             tabCounts := AList.update tab (length data) (tabCounts s)\<rparr>, b1)))"

definition setupRealtimeSubscriptions ::
    "string \<Rightarrow> (string \<times> string) list \<Rightarrow> Page \<times> Backend \<Rightarrow> Page \<times> Backend" where
  "setupRealtimeSubscriptions siteIdParam assets = (\<lambda>(s, b).
     let b1 = (case channelRef s of None \<Rightarrow> b | Some c \<Rightarrow> removeChannel c b);
         b2 = (case photoChannelRef s of None \<Rightarrow> b1 | Some c \<Rightarrow> removeChannel c b1)
     in (case open_channel ''asset-changes''
                (map (\<lambda>(tab, table).
                        \<lparr>on_event = ''*'', on_table = table,
                         on_filter = Some (''site_id=eq.'' @ siteIdParam),
                         callback = RefreshTab tab siteIdParam\<rparr>) TAB_TABLE_MAP) b2 of
           (channel, b3) \<Rightarrow>
             (case open_channel ''photo-changes''
                     [\<lparr>on_event = ''INSERT'', on_table = ''asset_photos'', on_filter = None,
                       callback = ReloadPhotos assets\<rparr>] b3 of
                (photoChannel, b4) \<Rightarrow>
                  (s\<lparr>channelRef := Some channel, photoChannelRef := Some photoChannel\<rparr>, b4))))"


text \<open>The \<open>{table, id}\<close> pairs of all rows: \<open>allAssets\<close> of \<open>handleSearch\<close> (over the query
  results) and of \<open>handlePhotoUpload\<close> (over \<open>tabData\<close>).\<close>

definition all_assets ::
    "(string \<times> 'a AssetRow_scheme list) list \<Rightarrow> (string \<times> string) list" where
  "all_assets results =
     concat (map (\<lambda>(tab, data). map (\<lambda>row. (table_of tab, row_id row)) data) results)"

definition handleSearch :: "Page \<times> Backend \<Rightarrow> Page \<times> Backend" where
  "handleSearch = (\<lambda>(s, b).
     let query = trim (searchQuery s) in
     if query = []
     then (s\<lparr>tabData := [], tabCounts := [], photos := [], hasSearched := False, siteId := []\<rparr>, b)
     else
       (let s1 = s\<lparr>loading := True, error := None, hasSearched := True, siteId := query\<rparr>
        in case fetch_tabs TABS query b of
             (answers, b1) \<Rightarrow>
               (case Promise_all answers of
                  Inl m \<Rightarrow> (s1\<lparr>error := Some (or_else (Some m) ''Failed to search assets''),
                                loading := False\<rparr>, b1)
                | Inr results \<Rightarrow>
                    (let s2 = s1\<lparr>tabData := fold (\<lambda>(tab, data). AList.update tab (map toEditable data))
                                                  results [],
                                  tabCounts := fold (\<lambda>(tab, data). AList.update tab (length data))
                                                  results []\<rparr>;
                         allAssets = all_assets results
                     in case loadPhotosForAssets allAssets (s2, b1) of
                          (s3, b2) \<Rightarrow>
                            (case setupRealtimeSubscriptions query allAssets (s3, b2) of
                               (s4, b3) \<Rightarrow> (s4\<lparr>loading := False\<rparr>, b3))))))"

text \<open>Delivering a change notification: the callbacks of the listeners that hear it run.\<close>

fun run_callback :: "Callback \<Rightarrow> Page \<times> Backend \<Rightarrow> Page \<times> Backend" where
  "run_callback (RefreshTab tab siteIdParam) = refreshTabData tab siteIdParam"
| "run_callback (ReloadPhotos assets) = loadPhotosForAssets assets"

definition notify :: "Change \<Rightarrow> Page \<times> Backend \<Rightarrow> Page \<times> Backend" where
  "notify c = (\<lambda>(s, b). fold run_callback (triggered b c) (s, b))"

section \<open>Editing and saving a row\<close>

text \<open>
  \<open>{...row, [field]: value}\<close>: the key is any string. The grid passes the draft keys; the
  other declared keys are written as well. A string stored under \<open>_saving\<close> is kept by its
  truthiness, the only thing the page reads of that flag, and a key that is not declared
  adds a property nothing reads.
\<close>

definition set_field :: "string \<Rightarrow> string \<Rightarrow> EditableRow \<Rightarrow> EditableRow" where
  "set_field field v r =
     (if field = ''_equipment_type'' then r\<lparr>draft_equipment_type := Some v\<rparr>
      else if field = ''_product_name'' then r\<lparr>draft_product_name := Some v\<rparr>
      else if field = ''_product_number'' then r\<lparr>draft_product_number := Some v\<rparr>
      else if field = ''_serial'' then r\<lparr>draft_serial := Some v\<rparr>
      else if field = ''_tag'' then r\<lparr>draft_tag := Some v\<rparr>
      else if field = ''_status'' then r\<lparr>draft_status := Some v\<rparr>
      else if field = ''_remarks'' then r\<lparr>draft_remarks := Some v\<rparr>
      else if field = ''_saving'' then r\<lparr>saving := Some (v \<noteq> [])\<rparr>
      else if field = ''id'' then r\<lparr>row_id := v\<rparr>
      else if field = ''site_id'' then r\<lparr>site_id := v\<rparr>
      else if field = ''date_text'' then r\<lparr>date_text := Some v\<rparr>
      else if field = ''equipment_type'' then r\<lparr>equipment_type := Some v\<rparr>
      else if field = ''product_name'' then r\<lparr>product_name := Some v\<rparr>
      else if field = ''product_number'' then r\<lparr>product_number := Some v\<rparr>
      else if field = ''serial'' then r\<lparr>serial := Some v\<rparr>
      else if field = ''tag'' then r\<lparr>tag := Some v\<rparr>
      else if field = ''status'' then r\<lparr>status := Some v\<rparr>
      else if field = ''remarks'' then r\<lparr>remarks := Some v\<rparr>
      else if field = ''category'' then r\<lparr>category := Some v\<rparr>
      else r)"

definition handleFieldChange :: "string \<Rightarrow> string \<Rightarrow> string \<Rightarrow> string \<Rightarrow> Page \<Rightarrow> Page" where
  "handleFieldChange tab rowId field v s =
     s\<lparr>tabData := update_row tab rowId (\<lambda>row. (set_field field v row)\<lparr>editing := Some True\<rparr>)
                    (tabData s)\<rparr>"

text \<open>\<open>fetchProductNames\<close>, with its cache under the key \<open>`${category}:${equipmentType}`\<close>.\<close>

definition truthy_names :: "string option list \<Rightarrow> string list" where
  "truthy_names ds = filter (\<lambda>n. n \<noteq> []) (map (\<lambda>d. or_else d []) ds)"

definition fetchProductNames ::
    "string \<Rightarrow> string \<Rightarrow> Page \<times> Backend \<Rightarrow> string list \<times> Page \<times> Backend" where
  "fetchProductNames cat equipmentType = (\<lambda>(s, b).
     let cacheKey = cat @ '':'' @ equipmentType in
     case map_of (productNames s) cacheKey of
       Some cached \<Rightarrow> (cached, s, b)
     | None \<Rightarrow>
         (case select_product_names cat equipmentType b of
            (Inl m, b1) \<Rightarrow> ([], s\<lparr>error := Some (''Failed to load product names: '' @ m)\<rparr>, b1)
          | (Inr data, b1) \<Rightarrow>
              (let names = truthy_names data
               in (names, s\<lparr>productNames := AList.update cacheKey names (productNames s)\<rparr>, b1))))"

text \<open>\<open>fetchEquipmentTypes\<close>, with its cache under the category.\<close>

definition fetchEquipmentTypes :: "string \<Rightarrow> Page \<times> Backend \<Rightarrow> string list \<times> Page \<times> Backend" where
  "fetchEquipmentTypes cat = (\<lambda>(s, b).
     case map_of (equipmentTypes s) cat of
       Some cached \<Rightarrow> (cached, s, b)
     | None \<Rightarrow>
         (case select_equipment_types cat b of
            (Inl m, b1) \<Rightarrow> ([], s\<lparr>error := Some (''Failed to load equipment types: '' @ m)\<rparr>, b1)
          | (Inr data, b1) \<Rightarrow>
              (let types = truthy_names data
               in (types, s\<lparr>equipmentTypes := AList.update cat types (equipmentTypes s)\<rparr>, b1))))"

text \<open>\<open>fetchTagStatuses\<close>: loaded once, without duplicates and sorted (\<open>sort()\<close> compares
  strings by their code units).\<close>

definition fetchTagStatuses :: "Page \<times> Backend \<Rightarrow> string list \<times> Page \<times> Backend" where
  "fetchTagStatuses = (\<lambda>(s, b).
     if tagStatuses s \<noteq> [] then (tagStatuses s, s, b)
     else
       (case select_tag_status b of
          (Inl m, b1) \<Rightarrow> ([], s\<lparr>error := Some (''Failed to load tag statuses: '' @ m)\<rparr>, b1)
        | (Inr data, b1) \<Rightarrow>
            (let statuses = sort (uniq (truthy_names data))
             in (statuses, s\<lparr>tagStatuses := statuses\<rparr>, b1))))"

text \<open>
  The two effects that depend on \<open>hasSearched\<close> (the first one on \<open>activeTab\<close> too): they
  run after a render in which one of these has changed.
\<close>

definition effect_equipment_types :: "Page \<times> Backend \<Rightarrow> Page \<times> Backend" where
  "effect_equipment_types = (\<lambda>(s, b).
     if hasSearched s \<and> activeTab s \<noteq> [] then snd (fetchEquipmentTypes (activeTab s) (s, b))
     else (s, b))"

definition effect_tag_statuses :: "Page \<times> Backend \<Rightarrow> Page \<times> Backend" where
  "effect_tag_statuses = (\<lambda>(s, b).
     if hasSearched s then snd (fetchTagStatuses (s, b)) else (s, b))"

text \<open>\<open>handleEquipmentTypeChange\<close> up to its first \<open>await\<close>: the state updates that are
  made before any request is sent.\<close>

definition equipmentTypeChange_begin :: "string \<Rightarrow> string \<Rightarrow> string \<Rightarrow> Page \<Rightarrow> Page" where
  "equipmentTypeChange_begin tab rowId v s =
     s\<lparr>loadingDropdowns := Some (rowId @ ''-product''),
       tabData := update_row tab rowId
                    (\<lambda>row. row\<lparr>draft_equipment_type := Some v, draft_product_name := Some [],
                                draft_product_number := Some [], editing := Some True\<rparr>)
                    (tabData s)\<rparr>"

definition handleEquipmentTypeChange ::
    "string \<Rightarrow> string \<Rightarrow> string \<Rightarrow> Page \<times> Backend \<Rightarrow> Page \<times> Backend" where
  "handleEquipmentTypeChange tab rowId v = (\<lambda>(s, b).
     let s1 = equipmentTypeChange_begin tab rowId v s in
     if v \<noteq> []
     then (case fetchProductNames tab v (s1, b) of
             (names, s2, b1) \<Rightarrow> (s2\<lparr>loadingDropdowns := None\<rparr>, b1))
     else (s1\<lparr>loadingDropdowns := None\<rparr>, b))"

text \<open>
  The same handler with its \<open>await\<close> written out. An asynchronous function runs
  without interruption up to its first request, which it sends from the state that its
  updates have made so far; when the answer is there it goes on from the state that the
  page has at that moment. \<open>Finished s\<close>: the handler has run to its end without a
  request, and has left the page in the state \<open>s\<close>. \<open>AwaitProductNames s c e k\<close>: the
  handler has brought the page to the state \<open>s\<close> and has sent the request for the product
  names of the category \<open>c\<close> and the equipment type \<open>e\<close>; \<open>k answer s'\<close> is the state in
  which it ends when the request is answered with \<open>answer\<close> and the page is in the state
  \<open>s'\<close> then. The request is the one of \<open>fetchProductNames\<close>, which returns at once when
  the list is in the cache that the handler saw when it was called.
\<close>

datatype progress =
    Finished Page
  | AwaitProductNames Page string string "(string + string option list) \<Rightarrow> Page \<Rightarrow> Page"

definition handleEquipmentTypeChange_await ::
    "string \<Rightarrow> string \<Rightarrow> string \<Rightarrow> Page \<Rightarrow> progress" where
  "handleEquipmentTypeChange_await tab rowId v s =
     (let s1 = s\<lparr>loadingDropdowns := Some (rowId @ ''-product''),
                tabData := update_row tab rowId
                             (\<lambda>row. row\<lparr>draft_equipment_type := Some v, draft_product_name := Some [],
                                         draft_product_number := Some [], editing := Some True\<rparr>)
                             (tabData s)\<rparr>;
          cacheKey = tab @ '':'' @ v
      in if v \<noteq> []
         then (case map_of (productNames s) cacheKey of
                 Some cached \<Rightarrow> Finished (s1\<lparr>loadingDropdowns := None\<rparr>)
               | None \<Rightarrow>
                   AwaitProductNames s1 tab v
                     (\<lambda>answer s2.
                        (case answer of
                           Inl m \<Rightarrow> s2\<lparr>error := Some (''Failed to load product names: '' @ m)\<rparr>
                         | Inr data \<Rightarrow>
                             s2\<lparr>productNames :=
                                  AList.update cacheKey (truthy_names data) (productNames s2)\<rparr>)
                        \<lparr>loadingDropdowns := None\<rparr>))
         else Finished (s1\<lparr>loadingDropdowns := None\<rparr>))"

text \<open>The handler run to its end: the request, if there is one, is answered by the backend
  before anything else happens to the page.\<close>

definition answered :: "progress \<Rightarrow> Backend \<Rightarrow> Page \<times> Backend" where
  "answered t b =
     (case t of
        Finished s \<Rightarrow> (s, b)
      | AwaitProductNames s c e k \<Rightarrow>
          (case select_product_names c e b of (answer, b1) \<Rightarrow> (k answer s, b1)))"

text \<open>\<open>data?.[0]?.product_number || null\<close>\<close>

definition first_product_number :: "string option list \<Rightarrow> string option" where
  "first_product_number data =
     (case data of [] \<Rightarrow> None | d # rest \<Rightarrow> or_null (or_else d []))"

definition fetchProductNumber ::
    "string \<Rightarrow> string option \<Rightarrow> string option \<Rightarrow> Backend \<Rightarrow> string option \<times> Backend" where
  "fetchProductNumber productName cat equipmentType b =
     (case select_product_number productName
             (or_null (or_else cat [])) (or_null (or_else equipmentType [])) b of
        (Inl m, b1) \<Rightarrow>
          (case select_product_number productName None None b1 of
             (Inl m', b2) \<Rightarrow> (None, b2)
           | (Inr fallbackData, b2) \<Rightarrow> (first_product_number fallbackData, b2))
      | (Inr data, b1) \<Rightarrow> (first_product_number data, b1))"

definition handleProductNameChange ::
    "string \<Rightarrow> string \<Rightarrow> string \<Rightarrow> string \<Rightarrow> Page \<times> Backend \<Rightarrow> Page \<times> Backend" where
  "handleProductNameChange tab rowId v equipmentType = (\<lambda>(s, b).
     let s1 = s\<lparr>loadingDropdowns := Some (rowId @ ''-product_number''),
                tabData := update_row tab rowId
                             (\<lambda>row. row\<lparr>draft_product_name := Some v, editing := Some True\<rparr>)
                             (tabData s)\<rparr>
     in if v \<noteq> []
        then (case fetchProductNumber v (Some tab) (Some equipmentType) b of
                (productNumber, b1) \<Rightarrow>
                  (if or_else productNumber [] \<noteq> []
                   then (s1\<lparr>tabData := update_row tab rowId
                                          (\<lambda>row. row\<lparr>draft_product_number := productNumber\<rparr>)
                                          (tabData s1),
                            loadingDropdowns := None\<rparr>, b1)
                   else (s1\<lparr>loadingDropdowns := None\<rparr>, b1)))
        else (s1\<lparr>loadingDropdowns := None\<rparr>, b))"

text \<open>The body of the update request of \<open>handleSaveRow\<close>: the seven drafts of the row.\<close>

definition save_payload :: "EditableRow \<Rightarrow> AssetUpdate" where
  "save_payload row =
     \<lparr>upd_equipment_type = draft_equipment_type row,
      upd_product_name = draft_product_name row,
      upd_product_number = draft_product_number row,
      upd_serial = draft_serial row,
      upd_tag = draft_tag row,
      upd_status = draft_status row,
      upd_remarks = draft_remarks row\<rparr>"

text \<open>The object literal written on success: the drafts of \<open>row\<close> become the columns of the
  row \<open>r\<close> in the state, and both flags become \<open>false\<close>.\<close>

definition promote :: "EditableRow \<Rightarrow> EditableRow \<Rightarrow> EditableRow" where
  "promote row r =
     r\<lparr>equipment_type := draft_equipment_type row,
       product_name := draft_product_name row,
       product_number := draft_product_number row,
       serial := draft_serial row,
       tag := draft_tag row,
       status := draft_status row,
       remarks := draft_remarks row,
       editing := Some False,
       saving := Some False\<rparr>"

definition handleSaveRow :: "string \<Rightarrow> EditableRow \<Rightarrow> Page \<times> Backend \<Rightarrow> Page \<times> Backend" where
  "handleSaveRow tab row = (\<lambda>(s, b).
     let s1 = s\<lparr>tabData := update_row tab (row_id row) (\<lambda>r. r\<lparr>saving := Some True\<rparr>) (tabData s)\<rparr>
     in case update_asset (table_of tab) (row_id row) (save_payload row) b of
          (None, b1) \<Rightarrow>
            (s1\<lparr>tabData := update_row tab (row_id row) (promote row) (tabData s1)\<rparr>, b1)
        | (Some m, b1) \<Rightarrow>
            (s1\<lparr>error := Some (''Failed to save: '' @ m),
                tabData := update_row tab (row_id row) (\<lambda>r. r\<lparr>saving := Some False\<rparr>) (tabData s1)\<rparr>,
             b1))"

section \<open>Photos\<close>

text \<open>
  \<open>handlePhotoUpload\<close>. \<open>file\<close> is \<open>e.target.files?.[0]\<close>, \<open>user\<close> is \<open>user?.id\<close> and
  \<open>now\<close> is \<open>new Date().toISOString()\<close>. The rows whose photos are reloaded are those of
  \<open>tabData\<close> as the handler saw it when it was called. \<open>storagePath\<close> is the path
  template and \<open>photo_payload\<close> the object passed to \<open>insert\<close>. The reset of the file
  input at the end belongs to the document, not to the state, and is left out.
\<close>

definition storagePath :: "string \<Rightarrow> string \<Rightarrow> string \<Rightarrow> PhotoType \<Rightarrow> File \<Rightarrow> string" where
  "storagePath site table rowId photoType f =
     site @ ''/'' @ table @ ''/'' @ rowId @ ''/'' @ photo_type_text photoType @ ''/'' @ file_name f"

definition photo_payload ::
    "string \<Rightarrow> string \<Rightarrow> PhotoType \<Rightarrow> string \<Rightarrow> string \<Rightarrow> string option \<Rightarrow> PhotoInsert" where
  "photo_payload rowId table photoType path now user =
     \<lparr>pin_asset_id = rowId, pin_asset_table = table, pin_photo_type = photoType,
      pin_storage_path = path, pin_taken_at = now, pin_taken_by = or_null (or_else user [])\<rparr>"

definition handlePhotoUpload ::
    "File option \<Rightarrow> string \<Rightarrow> EditableRow \<Rightarrow> PhotoType \<Rightarrow> string option \<Rightarrow> string
       \<Rightarrow> Page \<times> Backend \<Rightarrow> Page \<times> Backend" where
  "handlePhotoUpload file tab row photoType user now = (\<lambda>(s, b).
     case file of
       None \<Rightarrow> (s, b)
     | Some f \<Rightarrow>
         (let table = table_of tab;
              s1 = s\<lparr>uploadingPhoto := Some (row_id row @ ''-'' @ photo_type_text photoType)\<rparr>;
              path = storagePath (siteId s) table (row_id row) photoType f
          in case storage_upload path f b of
               (Some m, b1) \<Rightarrow>
                 (s1\<lparr>error := Some (''Failed to upload photo: '' @ m), uploadingPhoto := None\<rparr>, b1)
             | (None, b1) \<Rightarrow>
                 (case insert_photo (photo_payload (row_id row) table photoType path now user) b1 of
                    (Some m, b2) \<Rightarrow>
                      (s1\<lparr>error := Some (''Failed to upload photo: '' @ m),
                          uploadingPhoto := None\<rparr>, b2)
                  | (None, b2) \<Rightarrow>
                      (case loadPhotosForAssets (all_assets (tabData s)) (s1, b2) of
                         (s2, b3) \<Rightarrow> (s2\<lparr>uploadingPhoto := None\<rparr>, b3)))))"

text \<open>The asset of the drawer \<open>AssetDetail\<close>, with the fields \<open>uploadPhoto\<close> reads.\<close>

record Asset =
  a_id :: string
  a_site_id :: string

text \<open>\<open>file.name.split('.').pop()\<close>\<close>

definition file_ext :: "string \<Rightarrow> string" where
  "file_ext n = rev (takeWhile (\<lambda>c. c \<noteq> CHR ''.'') (rev n))"

text \<open>\<open>uploadPhoto\<close> of the drawer; \<open>Some m\<close> is the error it throws.\<close>

definition uploadPhoto :: "Asset \<Rightarrow> File \<Rightarrow> PhotoType \<Rightarrow> Backend \<Rightarrow> string option \<times> Backend" where
  "uploadPhoto asset file photoType b =
     (let fileExt = file_ext (file_name file);
          fileName = a_site_id asset @ ''/'' @ a_id asset @ ''/'' @ photo_type_text photoType
                       @ ''.'' @ fileExt
      in case storage_upload fileName file b of
           (Some m, b1) \<Rightarrow> (Some m, b1)
         | (None, b1) \<Rightarrow>
             upsert_photo
               \<lparr>pup_asset_id = a_id asset, pup_photo_type = photoType,
                pup_storage_path = fileName, pup_public_url = getPublicUrl fileName\<rparr> b1)"

section \<open>Adding a row\<close>

text \<open>A \<open>Date\<close> read in local time: \<open>getDate()\<close>, \<open>getMonth()\<close> (from 0) and \<open>getFullYear()\<close>.\<close>

record Date =
  getDate :: nat
  getMonth :: nat
  getFullYear :: nat

fun decimal :: "nat \<Rightarrow> string" where
  "decimal n =
     (if n < 10 then [char_of (48 + n)] else decimal (n div 10) @ [char_of (48 + n mod 10)])"

definition months :: "string list" where
  "months = [''Jan'', ''Feb'', ''Mar'', ''Apr'', ''May'', ''Jun'',
             ''Jul'', ''Aug'', ''Sep'', ''Oct'', ''Nov'', ''Dec'']"

definition formatDateText :: "Date \<Rightarrow> string" where
  "formatDateText date =
     (let day = getDate date;
          month = (if getMonth date < length months then months ! getMonth date else ''undefined'');
          year = (let y = decimal (getFullYear date) in drop (length y - 2) y)
      in decimal day @ ''-'' @ month @ ''-'' @ year)"

text \<open>The object literal that \<open>handleAddNewRow\<close> passes to \<open>insert\<close>.\<close>

definition new_row_payload :: "Date \<Rightarrow> Page \<Rightarrow> AssetInsert" where
  "new_row_payload today s =
     \<lparr>ins_site_id = siteId s,
      ins_date_text = formatDateText today,
      ins_category = activeTab s,
      ins_equipment_type = new_equipment_type (newRow s),
      ins_product_name = new_product_name (newRow s),
      ins_product_number = or_null (new_product_number (newRow s)),
      ins_serial = or_else (Some (new_serial (newRow s))) ''NA'',
      ins_tag = or_else (Some (new_tag (newRow s))) ''NA'',
      ins_status = new_status (newRow s),
      ins_remarks = or_null (new_remarks (newRow s))\<rparr>"

text \<open>\<open>handleAddNewRow\<close>. The timer that clears the success message after five seconds is
  left out.\<close>

definition handleAddNewRow :: "Date \<Rightarrow> Page \<times> Backend \<Rightarrow> Page \<times> Backend" where
  "handleAddNewRow today = (\<lambda>(s, b).
     if siteId s = []
     then (s\<lparr>error := Some ''Site ID is required. Please search for a site first.''\<rparr>, b)
     else if new_equipment_type (newRow s) = []
     then (s\<lparr>error := Some ''Equipment Type is required.''\<rparr>, b)
     else if new_product_name (newRow s) = []
     then (s\<lparr>error := Some ''Product Name is required.''\<rparr>, b)
     else if new_status (newRow s) = []
     then (s\<lparr>error := Some ''Tag & Serial Status is required.''\<rparr>, b)
     else
       (let s1 = s\<lparr>newRowSaving := True, error := None\<rparr>
        in case insert_asset (table_of (activeTab s)) (new_row_payload today s) b of
             (Inl m, b1) \<Rightarrow>
               (s1\<lparr>error := Some (''Failed to add new row: '' @ m), newRowSaving := False\<rparr>, b1)
           | (Inr data, b1) \<Rightarrow>
               (case refreshTabData (activeTab s) (siteId s)
                       (s1\<lparr>newAssetId := Some (row_id data)\<rparr>, b1) of
                  (s2, b2) \<Rightarrow>
                    (s2\<lparr>successMessage :=
                          Some (''New '' @ activeTab s @ '' asset added! You can now upload photos.''),
                        newRowSaving := False\<rparr>, b2))))"

section \<open>Vocabulary of the statements and sample values\<close>

text \<open>The requests sent between two states of the backend.\<close>

definition sent :: "Backend \<Rightarrow> Backend \<Rightarrow> request list" where
  "sent b b' = drop (length (calls b)) (calls b')"

definition is_insert :: "request \<Rightarrow> bool" where
  "is_insert r = (case r of InsertAsset t p \<Rightarrow> True | _ \<Rightarrow> False)"

text \<open>The four checks at the head of \<open>handleAddNewRow\<close>, all passed.\<close>

definition row_ready :: "Page \<Rightarrow> bool" where
  "row_ready s =
     (siteId s \<noteq> [] \<and> new_equipment_type (newRow s) \<noteq> [] \<and> new_product_name (newRow s) \<noteq> []
      \<and> new_status (newRow s) \<noteq> [])"

text \<open>\<open>disabled={!row._editing || row._saving}\<close> of the Save button.\<close>

definition save_disabled :: "EditableRow \<Rightarrow> bool" where
  "save_disabled r = (editing r \<noteq> Some True \<or> saving r = Some True)"

text \<open>The initial values of the state variables (\<open>useState\<close>, \<open>useRef\<close>).\<close>

definition initial :: Page where
  "initial =
     \<lparr>searchQuery = [], siteId = [], activeTab = ''Enclosure'', tabData = [], tabCounts = [],
      photos = [], loading = False, error = None, hasSearched = False, uploadingPhoto = None,
      equipmentTypes = [], productNames = [], tagStatuses = [], loadingDropdowns = None,
      newRowSaving = False, successMessage = None,
      newRow = \<lparr>new_equipment_type = [], new_product_name = [], new_product_number = [],
                 new_serial = [], new_tag = [], new_status = [], new_remarks = []\<rparr>,
      newAssetId = None, channelRef = None, photoChannelRef = None\<rparr>"

text \<open>A sample site with one enclosure row, and the page after that site was searched.\<close>

definition demo_row :: AssetRow where
  "demo_row =
     \<lparr>row_id = ''a1'', site_id = ''W2052'', date_text = Some ''1-Jul-25'',
      equipment_type = Some ''Rack'', product_name = Some ''Cabinet'', product_number = None,
      serial = Some ''S1'', tag = Some ''T1'', status = Some ''OK'', remarks = None,
      category = Some ''Enclosure''\<rparr>"

definition demo_backend :: Backend where
  "demo_backend =
     \<lparr>asset_tables = (\<lambda>t. if t = ''enclosure_assets'' then [demo_row] else []),
      asset_photos = [], photo_unique = False, bucket = Map.empty, product_catalog = [],
      v_equipment_types = [], v_product_names = [], v_tag_status = [],
      uuid = (\<lambda>n. replicate (Suc n) CHR ''u''), issued = 0,
      outage = (\<lambda>r. None), calls = [], channels = [], channel_count = 0\<rparr>"

definition demo_page :: Page where
  "demo_page =
     initial\<lparr>searchQuery := ''W2052'', siteId := ''W2052'', hasSearched := True,
             tabData := [(''Enclosure'', [toEditable demo_row])],
             tabCounts := [(''Enclosure'', 1)]\<rparr>"

definition demo_today :: Date where
  "demo_today = \<lparr>getDate = 1, getMonth = 6, getFullYear = 2025\<rparr>"

text \<open>The sample page with the "add new row" form filled in, serial and remarks left blank.\<close>

definition demo_form :: Page where
  "demo_form =
     demo_page\<lparr>newRow := \<lparr>new_equipment_type = ''Rack'', new_product_name = ''Cabinet'',
                           new_product_number = ''P-7'', new_serial = [], new_tag = ''T9'',
                           new_status = ''OK'', new_remarks = []\<rparr>\<rparr>"

text \<open>The sample backend when every request fails.\<close>

definition demo_down :: Backend where
  "demo_down = demo_backend\<lparr>outage := (\<lambda>r. Some ''offline'')\<rparr>"

text \<open>The sample row after its serial was retyped, and the page holding it.\<close>

definition demo_edited :: EditableRow where
  "demo_edited = (toEditable demo_row)\<lparr>draft_serial := Some ''S2'', editing := Some True\<rparr>"

definition demo_editing :: Page where
  "demo_editing = handleFieldChange ''Enclosure'' ''a1'' ''_serial'' ''S2'' demo_page"

text \<open>The sample site with an older row and a row of another site in the same table, and
  the page with the site typed into the search box.\<close>

definition demo_older :: AssetRow where
  "demo_older = demo_row\<lparr>row_id := ''a0'', date_text := Some ''1-Jan-24''\<rparr>"

definition demo_other :: AssetRow where
  "demo_other = demo_row\<lparr>row_id := ''z9'', site_id := ''W7''\<rparr>"

definition demo_site :: Backend where
  "demo_site = demo_backend\<lparr>asset_tables :=
      (\<lambda>t. if t = ''enclosure_assets'' then [demo_older, demo_other, demo_row] else [])\<rparr>"

definition demo_query :: Page where
  "demo_query = initial\<lparr>searchQuery := '' W2052 ''\<rparr>"

text \<open>
  The seven editable columns, the value of a column in a row, the draft of a column in a
  row of the grid, and the key under which the grid edits the draft.
\<close>

datatype column =
  EquipmentType | ProductName | ProductNumber | SerialText | TagText | StatusText | RemarksText


fun draft_of :: "column \<Rightarrow> 'a EditableRow_scheme \<Rightarrow> string option" where
  "draft_of EquipmentType r = draft_equipment_type r"
| "draft_of ProductName r = draft_product_name r"
| "draft_of ProductNumber r = draft_product_number r"
| "draft_of SerialText r = draft_serial r"
| "draft_of TagText r = draft_tag r"
| "draft_of StatusText r = draft_status r"
| "draft_of RemarksText r = draft_remarks r"


text \<open>\<open>tabData[tab] || []\<close>\<close>

definition tab_rows :: "Page \<Rightarrow> string \<Rightarrow> EditableRow list" where
  "tab_rows s tab = (case map_of (tabData s) tab of None \<Rightarrow> [] | Some rows \<Rightarrow> rows)"









text \<open>The sample page with a cached list of product names, and with a product number typed
  into the row.\<close>

definition demo_cached :: Page where
  "demo_cached = demo_page\<lparr>productNames := [(''Enclosure:Rack'', [''Cabinet''])]\<rparr>"

definition demo_stale :: Page where
  "demo_stale = demo_page\<lparr>tabData :=
     [(''Enclosure'', [(toEditable demo_row)\<lparr>draft_product_number := Some ''OLD-1''\<rparr>])]\<rparr>"

text \<open>The sample backend with a catalog that lacks the optional columns.\<close>

definition demo_catalog :: Backend where
  "demo_catalog =
     demo_backend\<lparr>product_catalog :=
                      [\<lparr>cat_product_name = ''Cabinet2'', cat_product_number = Some ''PN-2'',
                        cat_category = None, cat_equipment_type = None\<rparr>],
                   outage :=
                     (\<lambda>r. if r = SelectProductNumber ''Cabinet2'' (Some ''Enclosure'') (Some ''Rack'')
                          then Some ''column product_catalog.category does not exist''
                          else None)\<rparr>"




text \<open>
  The invariant of the subscriptions: either no channel is open, or the open channels are
  the two that the refs of the page hold, one for the asset tables and one for the photos.
\<close>

definition wired :: "Page \<times> Backend \<Rightarrow> bool" where
  "wired = (\<lambda>(s, b).
     channels b = []
     \<or> (map Some (channels b) = [channelRef s, photoChannelRef s]
         \<and> map channel_name (channels b) = [''asset-changes'', ''photo-changes'']
         \<and> distinct (map channel_ref (channels b))))"

text \<open>The open channels with a given name.\<close>

definition named :: "string \<Rightarrow> Backend \<Rightarrow> Channel list" where
  "named n b = filter (\<lambda>c. channel_name c = n) (channels b)"

text \<open>A request that, if it reads an asset table, reads the rows of the site \<open>q\<close> only.\<close>

definition asks_site :: "string \<Rightarrow> request \<Rightarrow> bool" where
  "asks_site q r = (case r of SelectAssets t x \<Rightarrow> x = q | _ \<Rightarrow> True)"



text \<open>The sample backend with the subscriptions of a search for \<open>W2052\<close> open, and two
  change notifications: one for a row of another site, one for a row of the searched site.\<close>

definition demo_live :: Backend where
  "demo_live = snd (setupRealtimeSubscriptions ''W2052'' [(''enclosure_assets'', ''a1'')]
                      (initial, demo_site))"

definition demo_foreign :: Change where
  "demo_foreign = \<lparr>change_table = ''enclosure_assets'', change_event = ''UPDATE'',
                    change_site = Some ''W7''\<rparr>"

definition demo_home :: Change where
  "demo_home = \<lparr>change_table = ''enclosure_assets'', change_event = ''UPDATE'',
                 change_site = Some ''W2052''\<rparr>"

text \<open>The sample site searched with success, and then the search box emptied (two blanks)
  and searched again.\<close>

definition demo_cleared :: "Page \<times> Backend" where
  "demo_cleared =
     (case handleSearch (demo_query, demo_site) of
        (s, b) \<Rightarrow> handleSearch (s\<lparr>searchQuery := ''  ''\<rparr>, b))"

text \<open>The URL that \<open>loadPhotosForAssets\<close> attaches to a photo.\<close>

definition signed :: "Backend \<Rightarrow> PhotoRow \<Rightarrow> string" where
  "signed b p =
     (case outage b (CreateSignedUrl (storage_path p) 3600) of
        Some m \<Rightarrow> []
      | None \<Rightarrow>
          (case bucket b (storage_path p) of
             None \<Rightarrow> []
           | Some x \<Rightarrow> ''signed:'' @ storage_path p))"

text \<open>The photo records of an asset, which is a table and an id in it, and of a type.\<close>

definition same_asset :: "string \<Rightarrow> string \<Rightarrow> PhotoType \<Rightarrow> PhotoRow \<Rightarrow> bool" where
  "same_asset t a ty q = (asset_table q = Some t \<and> asset_id q = a \<and> photo_type q = ty)"

text \<open>The sample backend with a serial photo of the sample row, a second file, and the
  upload of that file as another serial photo of the row.\<close>

definition demo_photo :: PhotoRow where
  "demo_photo =
     \<lparr>photo_id = ''p1'', asset_id = ''a1'', asset_table = Some ''enclosure_assets'',
      photo_type = Serial, storage_path = ''W2052/enclosure_assets/a1/serial/first.jpg'',
      public_url = None, taken_at = Some ''2025-07-01T08:00:00.000Z'', taken_by = None\<rparr>"

definition demo_photos :: Backend where
  "demo_photos =
     demo_backend\<lparr>asset_photos := [demo_photo],
                   bucket := [''W2052/enclosure_assets/a1/serial/first.jpg'' \<mapsto> ''AAA'']\<rparr>"

definition demo_file :: File where
  "demo_file = \<lparr>file_name = ''second.jpg'', file_bytes = ''BBB''\<rparr>"

definition demo_upload :: "Page \<times> Backend" where
  "demo_upload =
     handlePhotoUpload (Some demo_file) ''Enclosure'' (toEditable demo_row) Serial (Some ''u-7'')
       ''2025-07-02T09:00:00.000Z'' (demo_page, demo_photos)"

text \<open>The same backend when the photo table is declared \<open>UNIQUE(asset_id, photo_type)\<close>,
  as the README has it.\<close>

definition demo_unique :: Backend where
  "demo_unique = demo_photos\<lparr>photo_unique := True\<rparr>"

text \<open>The drawer's schema, with one serial photo of the asset \<open>x1\<close>.\<close>

definition demo_drawer :: Backend where
  "demo_drawer =
     demo_backend\<lparr>photo_unique := True,
                   asset_photos :=
                     [\<lparr>photo_id = ''p1'', asset_id = ''x1'', asset_table = None,
                       photo_type = Serial, storage_path = ''S1/x1/serial.jpg'',
                       public_url = Some ''public:S1/x1/serial.jpg'', taken_at = None,
                       taken_by = None\<rparr>],
                   bucket := [''S1/x1/serial.jpg'' \<mapsto> ''AAA'']\<rparr>"

definition demo_asset :: Asset where
  "demo_asset = \<lparr>a_id = ''x1'', a_site_id = ''S1''\<rparr>"

section \<open>Basic facts\<close>

lemma trim_spaces: "list_all is_space q \<Longrightarrow> trim q = []"
  by (induction q) (auto simp: trim_def)

lemma sent_append [simp]: "sent b (b'\<lparr>calls := calls b @ rs\<rparr>) = rs"
  by (simp add: sent_def)

lemma sent_same [simp]: "sent b b = []"
  by (simp add: sent_def)

lemma update_row_twice:
  assumes "\<And>r. row_id (f r) = row_id r"
  shows "update_row tab rid g (update_row tab rid f prev) = update_row tab rid (g \<circ> f) prev"
proof -
  have "(\<lambda>r. if row_id r = rid then g r else r) \<circ> (\<lambda>r. if row_id r = rid then f r else r)
          = (\<lambda>r. if row_id r = rid then (g \<circ> f) r else r)"
    by (auto simp: fun_eq_iff assms)
  then show ?thesis
    by (cases "map_of prev tab") (simp_all add: update_row_def update_conv')
qed

lemma refreshTabData_backend:
  "snd (refreshTabData tab q (s, b)) = b\<lparr>calls := calls b @ [SelectAssets (table_of tab) q]\<rparr>"
  by (simp add: refreshTabData_def select_assets_def send_def split: option.splits)

lemma demo_editing_rows: "map_of (tabData demo_editing) ''Enclosure'' = Some [demo_edited]"
  by (simp add: demo_editing_def demo_edited_def handleFieldChange_def demo_page_def initial_def
        update_row_def set_field_def demo_row_def toEditable_def AssetRow.defs EditableRow.defs)

lemma demo_edited_simps:
  "editing demo_edited = Some True" "row_id demo_edited = ''a1''"
  by (simp_all add: demo_edited_def toEditable_def demo_row_def AssetRow.defs EditableRow.defs)

lemma demo_row_id: "row_id (toEditable demo_row) = ''a1''"
  by (simp add: toEditable_def demo_row_def AssetRow.defs EditableRow.defs)

section \<open>Searching an empty query\<close>

text \<open>
  C6. A search whose query is empty once trimmed (the empty string, or white space only)
  empties the tab data, the tab counts and the photos, resets \<open>hasSearched\<close> and the
  site, and sends no request: the backend, its call log included, is left as it was. The
  effects that run after the render send none either, since \<open>hasSearched\<close> is false.
\<close>

theorem handleSearch_empty:
  assumes "trim (searchQuery s) = []"
  shows "handleSearch (s, b) =
           (s\<lparr>tabData := [], tabCounts := [], photos := [], hasSearched := False, siteId := []\<rparr>, b)
         \<and> sent b (snd (handleSearch (s, b))) = []
         \<and> effect_tag_statuses (effect_equipment_types (handleSearch (s, b))) = handleSearch (s, b)"
  using assms
  by (simp add: handleSearch_def effect_equipment_types_def effect_tag_statuses_def)

theorem handleSearch_empty_witness:
  "trim (searchQuery (demo_page\<lparr>searchQuery := ''  ''\<rparr>)) = []
   \<and> handleSearch (demo_page\<lparr>searchQuery := ''  ''\<rparr>, demo_backend) =
       (demo_page\<lparr>searchQuery := ''  '', tabData := [], tabCounts := [], photos := [],
                  hasSearched := False, siteId := []\<rparr>, demo_backend)"
proof -
  have h: "trim (searchQuery (demo_page\<lparr>searchQuery := ''  ''\<rparr>)) = []"
    by (simp add: trim_def is_space_def)
  show ?thesis
    using h handleSearch_empty [OF h, of demo_backend] by simp
qed

section \<open>A save that fails\<close>

text \<open>
  C9. When the update request of \<open>handleSaveRow\<close> is answered with an error, the state
  differs from the one before the click in two places only: the error message is set, and
  the rows with the saved id have \<open>_saving\<close> reset to \<open>false\<close>. Columns, drafts and
  \<open>_editing\<close> of every row are as before, the tables of the backend are untouched, and a
  row that was being edited has its Save button enabled again.
\<close>

theorem handleSaveRow_failure:
  assumes "outage b (UpdateAsset (table_of tab) (row_id row) (save_payload row)) = Some m"
  shows "handleSaveRow tab row (s, b) =
           (s\<lparr>error := Some (''Failed to save: '' @ m),
              tabData := update_row tab (row_id row) (\<lambda>r. r\<lparr>saving := Some False\<rparr>) (tabData s)\<rparr>,
            b\<lparr>calls := calls b @ [UpdateAsset (table_of tab) (row_id row) (save_payload row)]\<rparr>)
         \<and> save_disabled (r\<lparr>saving := Some False\<rparr>) = (editing r \<noteq> Some True)"
  using assms
  by (simp add: handleSaveRow_def update_asset_def send_def update_row_twice comp_def
        save_disabled_def)

theorem handleSaveRow_failure_witness:
  "outage demo_down (UpdateAsset (table_of ''Enclosure'') (row_id demo_edited) (save_payload demo_edited))
     = Some ''offline''
   \<and> error (fst (handleSaveRow ''Enclosure'' demo_edited (demo_editing, demo_down)))
       = Some ''Failed to save: offline''
   \<and> map_of (tabData (fst (handleSaveRow ''Enclosure'' demo_edited (demo_editing, demo_down)))) ''Enclosure''
       = Some [demo_edited\<lparr>saving := Some False\<rparr>]
   \<and> asset_tables (snd (handleSaveRow ''Enclosure'' demo_edited (demo_editing, demo_down))) ''enclosure_assets''
       = [demo_row]
   \<and> \<not> save_disabled (demo_edited\<lparr>saving := Some False\<rparr>)"
proof -
  have h: "outage demo_down
             (UpdateAsset (table_of ''Enclosure'') (row_id demo_edited) (save_payload demo_edited))
           = Some ''offline''"
    by (simp add: demo_down_def)
  show ?thesis
    using h handleSaveRow_failure [OF h, of demo_editing demo_edited] demo_editing_rows
      demo_edited_simps
    by (simp add: update_row_def update_conv' demo_down_def demo_backend_def)
qed

section \<open>The insert of a new row\<close>

lemma handleAddNewRow_refused:
  assumes "\<not> row_ready s"
  shows "snd (handleAddNewRow today (s, b)) = b
         \<and> error (fst (handleAddNewRow today (s, b))) \<noteq> None"
  using assms by (auto simp: handleAddNewRow_def row_ready_def)

lemma handleAddNewRow_failed:
  assumes "row_ready s"
    and "outage b (InsertAsset (table_of (activeTab s)) (new_row_payload today s)) = Some m"
  shows "snd (handleAddNewRow today (s, b)) =
           b\<lparr>calls := calls b @ [InsertAsset (table_of (activeTab s)) (new_row_payload today s)]\<rparr>"
  using assms by (simp add: handleAddNewRow_def row_ready_def insert_asset_def send_def)

lemma handleAddNewRow_inserted:
  assumes "row_ready s"
    and "outage b (InsertAsset (table_of (activeTab s)) (new_row_payload today s)) = None"
  shows "snd (handleAddNewRow today (s, b)) =
           b\<lparr>calls := calls b @ [InsertAsset (table_of (activeTab s)) (new_row_payload today s),
                                 SelectAssets (table_of (activeTab s)) (siteId s)],
             asset_tables := (asset_tables b)
               (table_of (activeTab s) := asset_tables b (table_of (activeTab s))
                  @ [new_asset (uuid b (issued b)) (new_row_payload today s)]),
             issued := Suc (issued b)\<rparr>"
  using assms
  by (simp add: handleAddNewRow_def row_ready_def insert_asset_def send_def Let_def
        case_prod_beta refreshTabData_backend)

text \<open>
  C10. \<open>handleAddNewRow\<close> sends an insert exactly when the site, the equipment type, the
  product name and the status are all non-empty. Otherwise it sets an error message and
  sends nothing. When the insert is accepted, the table gains one row, in which a blank
  serial or tag is the text \<open>NA\<close> and a blank product number or remarks is \<open>null\<close>.
\<close>

theorem handleAddNewRow_insert:
  "list_ex is_insert (sent b (snd (handleAddNewRow today (s, b)))) = row_ready s
   \<and> (\<not> row_ready s \<longrightarrow>
        snd (handleAddNewRow today (s, b)) = b
        \<and> error (fst (handleAddNewRow today (s, b))) \<noteq> None)
   \<and> (row_ready s
        \<and> outage b (InsertAsset (table_of (activeTab s)) (new_row_payload today s)) = None \<longrightarrow>
        (let rows = asset_tables b (table_of (activeTab s));
             rows' = asset_tables (snd (handleAddNewRow today (s, b))) (table_of (activeTab s))
         in rows' = rows @ [last rows']
            \<and> serial (last rows') =
                Some (if new_serial (newRow s) = [] then ''NA'' else new_serial (newRow s))
            \<and> tag (last rows') =
                Some (if new_tag (newRow s) = [] then ''NA'' else new_tag (newRow s))
            \<and> product_number (last rows') =
                (if new_product_number (newRow s) = [] then None
                 else Some (new_product_number (newRow s)))
            \<and> remarks (last rows') =
                (if new_remarks (newRow s) = [] then None else Some (new_remarks (newRow s)))))"
proof (cases "row_ready s")
  case False
  then show ?thesis
    using handleAddNewRow_refused [OF False, of today b] by simp
next
  case True
  show ?thesis
  proof (cases "outage b (InsertAsset (table_of (activeTab s)) (new_row_payload today s))")
    case None
    show ?thesis
      using True None
      by (simp add: handleAddNewRow_inserted [OF True None] is_insert_def Let_def sent_def
            new_asset_def new_row_payload_def or_else_def or_null_def)
  next
    case (Some m)
    show ?thesis
      using True Some
      by (simp add: handleAddNewRow_failed [OF True Some] is_insert_def sent_def)
  qed
qed

theorem handleAddNewRow_insert_witness:
  "\<not> row_ready demo_page
   \<and> snd (handleAddNewRow demo_today (demo_page, demo_backend)) = demo_backend
   \<and> error (fst (handleAddNewRow demo_today (demo_page, demo_backend))) \<noteq> None
   \<and> row_ready demo_form
   \<and> outage demo_backend
        (InsertAsset (table_of (activeTab demo_form)) (new_row_payload demo_today demo_form)) = None
   \<and> list_ex is_insert (sent demo_backend (snd (handleAddNewRow demo_today (demo_form, demo_backend))))
   \<and> serial (last (asset_tables (snd (handleAddNewRow demo_today (demo_form, demo_backend)))
                     ''enclosure_assets'')) = Some ''NA''
   \<and> tag (last (asset_tables (snd (handleAddNewRow demo_today (demo_form, demo_backend)))
                  ''enclosure_assets'')) = Some ''T9''
   \<and> product_number (last (asset_tables (snd (handleAddNewRow demo_today (demo_form, demo_backend)))
                             ''enclosure_assets'')) = Some ''P-7''
   \<and> remarks (last (asset_tables (snd (handleAddNewRow demo_today (demo_form, demo_backend)))
                      ''enclosure_assets'')) = None"
proof -
  have no: "\<not> row_ready demo_page"
    by (simp add: row_ready_def demo_page_def initial_def)
  have yes: "row_ready demo_form"
    by (simp add: row_ready_def demo_form_def demo_page_def initial_def)
  have up: "outage demo_backend
              (InsertAsset (table_of (activeTab demo_form)) (new_row_payload demo_today demo_form))
            = None"
    by (simp add: demo_backend_def)
  have tab: "table_of (activeTab demo_form) = ''enclosure_assets''"
    by (simp add: demo_form_def demo_page_def initial_def table_of_def TAB_TABLE_MAP_def)
  have form: "newRow demo_form =
                \<lparr>new_equipment_type = ''Rack'', new_product_name = ''Cabinet'',
                 new_product_number = ''P-7'', new_serial = [], new_tag = ''T9'',
                 new_status = ''OK'', new_remarks = []\<rparr>"
    by (simp add: demo_form_def)
  show ?thesis
    using no yes up
      handleAddNewRow_insert [of demo_backend demo_today demo_page]
      handleAddNewRow_insert [of demo_backend demo_today demo_form]
    by (simp add: tab form Let_def)
qed

section \<open>Searching a site\<close>

lemma fetch_tabs_eq:
  "fetch_tabs tabs q b =
     (map (\<lambda>tab. (tab, case outage b (SelectAssets (table_of tab) q) of
                          Some m \<Rightarrow> Inl m
                        | None \<Rightarrow> Inr (order_desc (filter (\<lambda>r. site_id r = q)
                                                        (asset_tables b (table_of tab))))))
          tabs,
      b\<lparr>calls := calls b @ map (\<lambda>tab. SelectAssets (table_of tab) q) tabs\<rparr>)"
proof (induction tabs arbitrary: b)
  case Nil
  then show ?case by simp
next
  case (Cons tab tabs)
  show ?case
    by (simp add: Cons.IH select_assets_def send_def split: option.splits)
qed

lemma Promise_all_ok:
  "Promise_all (map (\<lambda>tab. (tab, Inr (f tab))) tabs) = Inr (map (\<lambda>tab. (tab, f tab)) tabs)"
  by (induction tabs) simp_all

lemma map_of_fold_update:
  "map_of (fold (\<lambda>(k, d). AList.update k (f d)) rs acc) k =
     (case map_of (rev rs) k of Some d \<Rightarrow> Some (f d) | None \<Rightarrow> map_of acc k)"
  by (induction rs arbitrary: acc) (auto simp: update_conv' split: option.splits)

lemma sorted_order_desc:
  "sorted_wrt (\<lambda>x y. null_first (date_text y) \<le> null_first (date_text x)) (order_desc rows)"
proof -
  have "sorted (map (\<lambda>r. null_first (date_text r)) (sort_key (\<lambda>r. null_first (date_text r)) rows))"
    by (rule sorted_sort_key)
  then show ?thesis
    by (simp add: order_desc_def sorted_wrt_rev sorted_map)
qed

lemma mset_order_desc: "mset (order_desc rows) = mset rows"
  by (simp add: order_desc_def)

lemma truncate_toEditable: "AssetRow.truncate (toEditable r) = r"
  by (simp add: toEditable_def AssetRow.defs EditableRow.defs)

lemma loadPhotosForAssets_tabs:
  "tabData (fst (loadPhotosForAssets assets p)) = tabData (fst p)"
  "tabCounts (fst (loadPhotosForAssets assets p)) = tabCounts (fst p)"
  by (cases p; simp add: loadPhotosForAssets_def split: prod.splits sum.splits)+

lemma setupRealtimeSubscriptions_tabs:
  "tabData (fst (setupRealtimeSubscriptions q assets p)) = tabData (fst p)"
  "tabCounts (fst (setupRealtimeSubscriptions q assets p)) = tabCounts (fst p)"
  by (cases p; simp add: setupRealtimeSubscriptions_def Let_def split: prod.splits)+

lemma distinct_TABS: "distinct TABS"
  by (simp add: TABS_def)

lemma handleSearch_tabs:
  assumes q: "trim (searchQuery s) \<noteq> []"
    and ok: "\<forall>tab \<in> set TABS. outage b (SelectAssets (table_of tab) (trim (searchQuery s))) = None"
  shows "tabData (fst (handleSearch (s, b))) =
           fold (\<lambda>(tab, data). AList.update tab (map toEditable data))
             (map (\<lambda>tab. (tab, order_desc (filter (\<lambda>r. site_id r = trim (searchQuery s))
                                               (asset_tables b (table_of tab))))) TABS) []"
    and "tabCounts (fst (handleSearch (s, b))) =
           fold (\<lambda>(tab, data). AList.update tab (length data))
             (map (\<lambda>tab. (tab, order_desc (filter (\<lambda>r. site_id r = trim (searchQuery s))
                                               (asset_tables b (table_of tab))))) TABS) []"
proof -
  let ?q = "trim (searchQuery s)"
  let ?rows = "\<lambda>tab. order_desc (filter (\<lambda>r. site_id r = ?q) (asset_tables b (table_of tab)))"
  have eq: "map (\<lambda>tab. (tab, case outage b (SelectAssets (table_of tab) ?q) of
                              Some m \<Rightarrow> Inl m | None \<Rightarrow> Inr (?rows tab))) TABS
            = map (\<lambda>tab. (tab, Inr (?rows tab))) TABS"
    by (rule map_cong) (use ok in auto)
  have all: "Promise_all (fst (fetch_tabs TABS ?q b)) = Inr (map (\<lambda>tab. (tab, ?rows tab)) TABS)"
    unfolding fetch_tabs_eq fst_conv eq by (rule Promise_all_ok)
  show "tabData (fst (handleSearch (s, b))) =
           fold (\<lambda>(tab, data). AList.update tab (map toEditable data))
             (map (\<lambda>tab. (tab, ?rows tab)) TABS) []"
    using q all
    by (simp add: handleSearch_def Let_def case_prod_beta loadPhotosForAssets_tabs
          setupRealtimeSubscriptions_tabs del: fold_simps)
  show "tabCounts (fst (handleSearch (s, b))) =
           fold (\<lambda>(tab, data). AList.update tab (length data))
             (map (\<lambda>tab. (tab, ?rows tab)) TABS) []"
    using q all
    by (simp add: handleSearch_def Let_def case_prod_beta loadPhotosForAssets_tabs
          setupRealtimeSubscriptions_tabs del: fold_simps)
qed

lemma map_of_rev_tabs:
  assumes "distinct tabs" and "tab \<in> set tabs"
  shows "map_of (rev (map (\<lambda>t. (t, f t)) tabs)) tab = Some (f tab)"
proof -
  have "distinct (map fst (rev (map (\<lambda>t. (t, f t)) tabs)))"
    using assms(1) by (simp add: rev_map [symmetric] comp_def)
  moreover have "(tab, f tab) \<in> set (rev (map (\<lambda>t. (t, f t)) tabs))"
    using assms(2) by auto
  ultimately show ?thesis
    by (rule map_of_is_SomeI)
qed

text \<open>
  C2. A search for a site (the query trimmed, and not empty) whose five queries are all
  answered fills every tab with exactly the rows of the tab's table whose \<open>site_id\<close> is
  the searched one, kept as they were fetched, in descending order of \<open>date_text\<close>; the
  count of the tab is the number of those rows.
\<close>

theorem handleSearch_populates:
  assumes q: "trim (searchQuery s) \<noteq> []"
    and ok: "\<forall>tab \<in> set TABS. outage b (SelectAssets (table_of tab) (trim (searchQuery s))) = None"
    and tab: "tab \<in> set TABS"
  shows "\<exists>rows. map_of (tabData (fst (handleSearch (s, b)))) tab = Some (map toEditable rows)
           \<and> map AssetRow.truncate (map toEditable rows) = rows
           \<and> mset rows = mset (filter (\<lambda>r. site_id r = trim (searchQuery s))
                                  (asset_tables b (table_of tab)))
           \<and> sorted_wrt (\<lambda>x y. null_first (date_text y) \<le> null_first (date_text x)) rows
           \<and> map_of (tabCounts (fst (handleSearch (s, b)))) tab = Some (length rows)"
proof -
  let ?rows = "order_desc (filter (\<lambda>r. site_id r = trim (searchQuery s))
                             (asset_tables b (table_of tab)))"
  have "map_of (tabData (fst (handleSearch (s, b)))) tab = Some (map toEditable ?rows)"
    by (simp add: handleSearch_tabs [OF q ok] map_of_fold_update
          map_of_rev_tabs [OF distinct_TABS tab])
  moreover have "map_of (tabCounts (fst (handleSearch (s, b)))) tab = Some (length ?rows)"
    by (simp add: handleSearch_tabs [OF q ok] map_of_fold_update
          map_of_rev_tabs [OF distinct_TABS tab])
  moreover have "map AssetRow.truncate (map toEditable ?rows) = ?rows"
    by (simp add: comp_def truncate_toEditable)
  ultimately show ?thesis
    using sorted_order_desc mset_order_desc by blast
qed

lemma demo_query_trim: "trim (searchQuery demo_query) = ''W2052''"
  by (simp add: demo_query_def trim_def is_space_def)

lemma demo_site_up: "outage demo_site r = None"
  by (simp add: demo_site_def demo_backend_def)

lemma demo_site_enclosure:
  "order_desc (filter (\<lambda>r. site_id r = ''W2052'') (asset_tables demo_site (table_of ''Enclosure'')))
     = [demo_row, demo_older]"
  by (simp add: demo_site_def demo_backend_def table_of_def TAB_TABLE_MAP_def order_desc_def
        demo_older_def demo_other_def demo_row_def null_first_def)

theorem handleSearch_populates_witness:
  "trim (searchQuery demo_query) = ''W2052''
   \<and> list_all (\<lambda>tab. outage demo_site (SelectAssets (table_of tab) ''W2052'') = None) TABS
   \<and> map_of (tabData (fst (handleSearch (demo_query, demo_site)))) ''Enclosure''
       = Some [toEditable demo_row, toEditable demo_older]
   \<and> map_of (tabCounts (fst (handleSearch (demo_query, demo_site)))) ''Enclosure'' = Some 2"
proof -
  have q: "trim (searchQuery demo_query) \<noteq> []"
    by (simp add: demo_query_trim)
  have ok: "\<forall>tab \<in> set TABS.
              outage demo_site (SelectAssets (table_of tab) (trim (searchQuery demo_query))) = None"
    by (simp add: demo_site_up)
  have tab: "''Enclosure'' \<in> set TABS"
    by (simp add: TABS_def)
  from handleSearch_populates [OF q ok tab] obtain rows where
    shown: "map_of (tabData (fst (handleSearch (demo_query, demo_site)))) ''Enclosure''
              = Some (map toEditable rows)"
    and same: "map AssetRow.truncate (map toEditable rows) = rows"
    and rows: "mset rows = mset (filter (\<lambda>r. site_id r = trim (searchQuery demo_query))
                                  (asset_tables demo_site (table_of ''Enclosure'')))"
    and desc: "sorted_wrt (\<lambda>x y. null_first (date_text y) \<le> null_first (date_text x)) rows"
    and count: "map_of (tabCounts (fst (handleSearch (demo_query, demo_site)))) ''Enclosure''
              = Some (length rows)"
    by blast
  have direct: "map_of (tabData (fst (handleSearch (demo_query, demo_site)))) ''Enclosure''
                  = Some [toEditable demo_row, toEditable demo_older]"
    by (simp add: handleSearch_tabs(1) [OF q ok] map_of_fold_update
          map_of_rev_tabs [OF distinct_TABS tab] demo_query_trim demo_site_enclosure)
  with shown have "map toEditable rows = [toEditable demo_row, toEditable demo_older]"
    by simp
  then have "length (map toEditable rows) = 2"
    by simp
  then have "length rows = 2"
    by simp
  with count direct show ?thesis
    by (simp add: demo_query_trim demo_site_up list_all_iff)
qed

section \<open>Saving a row\<close>


lemma draft_of_editing [simp]: "draft_of c (r\<lparr>editing := e\<rparr>) = draft_of c r"
  by (cases c) simp_all








lemma tab_rows_update_row:
  "tab_rows (s\<lparr>tabData := update_row tab rid f (tabData s)\<rparr>) tab =
     map (\<lambda>r. if row_id r = rid then f r else r) (tab_rows s tab)"
  by (simp add: tab_rows_def update_row_def update_conv' split: option.splits)

















section \<open>Changing the equipment type\<close>

lemma fetchProductNames_frame:
  "tabData (fst (snd (fetchProductNames cat e p))) = tabData (fst p)"
  by (cases p) (simp add: fetchProductNames_def Let_def split: option.splits prod.splits sum.splits)

lemma fetchProductNames_cache:
  assumes "map_of (productNames (fst p)) k = Some names"
  shows "map_of (productNames (fst (snd (fetchProductNames cat e p)))) k = Some names"
  using assms
  by (cases p)
     (auto simp: fetchProductNames_def Let_def update_conv' split: option.splits prod.splits sum.splits)

lemma fetchProductNames_calls:
  "calls (snd (snd (fetchProductNames cat e (s, b)))) =
     calls b @ (if map_of (productNames s) (cat @ '':'' @ e) = None
                then [SelectProductNames cat e] else [])"
  by (simp add: fetchProductNames_def select_product_names_def send_def Let_def
        split: option.splits)

lemma handleEquipmentTypeChange_answered:
  "handleEquipmentTypeChange tab rowId v (s, b) =
     answered (handleEquipmentTypeChange_await tab rowId v s) b"
  by (simp add: handleEquipmentTypeChange_def handleEquipmentTypeChange_await_def answered_def
        equipmentTypeChange_begin_def fetchProductNames_def Let_def
        split: option.splits prod.splits sum.splits)

text \<open>
  C4, as the code has it. The handler is its part up to the request followed by the answer
  of the backend and the rest. When the equipment type of a row is changed, the state from
  which the handler sends its request (the only one, for the product names of the new
  equipment type, and only when they are not cached) already has the row's product-name and
  product-number drafts empty, with the new equipment type and \<open>_editing\<close> set; when it
  sends none, the state it ends in has them so. What the handler does once the answer is
  there changes no row, whatever the state of the page is by then. The cached lists of
  product names are not cleared, neither before the request nor after it: the cache is as
  it was when the request is sent, and afterwards only the list of the new equipment type
  is added.
\<close>

theorem equipment_type_change_clears:
  "handleEquipmentTypeChange tab rowId v (s, b) =
     answered (handleEquipmentTypeChange_await tab rowId v s) b
   \<and> (let cleared = map (\<lambda>r. if row_id r = rowId
                                 then r\<lparr>draft_equipment_type := Some v, draft_product_name := Some [],
                                        draft_product_number := Some [], editing := Some True\<rparr>
                                 else r) (tab_rows s tab)
       in case handleEquipmentTypeChange_await tab rowId v s of
            Finished s' \<Rightarrow> tab_rows s' tab = cleared \<and> productNames s' = productNames s
          | AwaitProductNames s1 c e k \<Rightarrow>
              tab_rows s1 tab = cleared \<and> productNames s1 = productNames s
              \<and> c = tab \<and> e = v
              \<and> (\<forall>answer s2. tabData (k answer s2) = tabData s2
                     \<and> (\<forall>key. key \<noteq> tab @ '':'' @ v \<longrightarrow>
                            map_of (productNames (k answer s2)) key = map_of (productNames s2) key)))
   \<and> sent b (snd (handleEquipmentTypeChange tab rowId v (s, b))) =
       (if v \<noteq> [] \<and> map_of (productNames s) (tab @ '':'' @ v) = None
        then [SelectProductNames tab v] else [])
   \<and> (\<forall>k names. map_of (productNames s) k = Some names \<longrightarrow>
          map_of (productNames (fst (handleEquipmentTypeChange tab rowId v (s, b)))) k = Some names)"
proof -
  let ?cleared = "map (\<lambda>r. if row_id r = rowId
                             then r\<lparr>draft_equipment_type := Some v, draft_product_name := Some [],
                                    draft_product_number := Some [], editing := Some True\<rparr>
                             else r) (tab_rows s tab)"
  have rows: "tab_rows (s'\<lparr>tabData := update_row tab rowId f (tabData s)\<rparr>) tab =
                map (\<lambda>r. if row_id r = rowId then f r else r) (tab_rows s tab)" for s' f
    by (simp add: tab_rows_def update_row_def update_conv' split: option.splits)
  have rows': "tab_rows (s'\<lparr>loadingDropdowns := x\<rparr>) tab = tab_rows s' tab" for s' x
    by (simp add: tab_rows_def)
  have await: "case handleEquipmentTypeChange_await tab rowId v s of
            Finished s' \<Rightarrow> tab_rows s' tab = ?cleared \<and> productNames s' = productNames s
          | AwaitProductNames s1 c e k \<Rightarrow>
              tab_rows s1 tab = ?cleared \<and> productNames s1 = productNames s
              \<and> c = tab \<and> e = v
              \<and> (\<forall>answer s2. tabData (k answer s2) = tabData s2
                     \<and> (\<forall>key. key \<noteq> tab @ '':'' @ v \<longrightarrow>
                            map_of (productNames (k answer s2)) key = map_of (productNames s2) key))"
    unfolding handleEquipmentTypeChange_await_def Let_def
    by (simp add: rows rows' update_conv' split: option.splits sum.splits)
  have calls: "sent b (snd (handleEquipmentTypeChange tab rowId v (s, b))) =
       (if v \<noteq> [] \<and> map_of (productNames s) (tab @ '':'' @ v) = None
        then [SelectProductNames tab v] else [])"
    using fetchProductNames_calls [of tab v "equipmentTypeChange_begin tab rowId v s" b]
    by (simp add: handleEquipmentTypeChange_def Let_def case_prod_beta sent_def
          equipmentTypeChange_begin_def)
  have cache: "\<forall>k names. map_of (productNames s) k = Some names \<longrightarrow>
          map_of (productNames (fst (handleEquipmentTypeChange tab rowId v (s, b)))) k = Some names"
  proof (intro allI impI)
    fix k names
    assume "map_of (productNames s) k = Some names"
    then have "map_of (productNames (fst (equipmentTypeChange_begin tab rowId v s, b))) k = Some names"
      by (simp add: equipmentTypeChange_begin_def)
    from fetchProductNames_cache [OF this, of tab v]
    show "map_of (productNames (fst (handleEquipmentTypeChange tab rowId v (s, b)))) k = Some names"
      by (simp add: handleEquipmentTypeChange_def Let_def case_prod_beta)
         (simp add: equipmentTypeChange_begin_def \<open>map_of (productNames s) k = Some names\<close>)
  qed
  show ?thesis
    unfolding Let_def using handleEquipmentTypeChange_answered await calls cache by blast
qed

lemma demo_cached_rows: "tab_rows demo_cached ''Enclosure'' = [toEditable demo_row]"
  by (simp add: demo_cached_def demo_page_def tab_rows_def)

theorem equipment_type_change_clears_witness:
  "map_of (productNames demo_cached) ''Enclosure:Rack'' = Some [''Cabinet'']
   \<and> (case handleEquipmentTypeChange_await ''Enclosure'' ''a1'' ''Shelter'' demo_cached of
         Finished s' \<Rightarrow> False
       | AwaitProductNames s1 c e k \<Rightarrow>
           c = ''Enclosure'' \<and> e = ''Shelter''
           \<and> map draft_product_name (tab_rows s1 ''Enclosure'') = [Some []]
           \<and> map draft_product_number (tab_rows s1 ''Enclosure'') = [Some []]
           \<and> productNames s1 = [(''Enclosure:Rack'', [''Cabinet''])])
   \<and> sent demo_backend (snd (handleEquipmentTypeChange ''Enclosure'' ''a1'' ''Shelter''
                                (demo_cached, demo_backend)))
       = [SelectProductNames ''Enclosure'' ''Shelter'']
   \<and> map_of (productNames (fst (handleEquipmentTypeChange ''Enclosure'' ''a1'' ''Shelter''
                                    (demo_cached, demo_backend)))) ''Enclosure:Rack''
       = Some [''Cabinet'']"
proof -
  have cached: "map_of (productNames demo_cached) ''Enclosure:Rack'' = Some [''Cabinet'']"
    "map_of (productNames demo_cached) ''Enclosure:Shelter'' = None"
    "productNames demo_cached = [(''Enclosure:Rack'', [''Cabinet''])]"
    by (simp_all add: demo_cached_def)
  obtain s1 k where await:
    "handleEquipmentTypeChange_await ''Enclosure'' ''a1'' ''Shelter'' demo_cached
       = AwaitProductNames s1 ''Enclosure'' ''Shelter'' k"
    by (simp add: handleEquipmentTypeChange_await_def cached Let_def)
  note t = equipment_type_change_clears
             [of "''Enclosure''" "''a1''" "''Shelter''" demo_cached demo_backend]
  note pending = t [THEN conjunct2, THEN conjunct1]
  note asked = t [THEN conjunct2, THEN conjunct2, THEN conjunct1]
  note kept = t [THEN conjunct2, THEN conjunct2, THEN conjunct2]
  show ?thesis
    using cached pending asked kept
    by (simp add: await demo_cached_rows demo_row_id Let_def)
qed

text \<open>
  The claim as the specification states it fails for the cached option lists: a cached
  list is still there when the first request is sent, and when the handler is done.
\<close>

theorem cached_options_counterexample:
  "productNames demo_cached = [(''Enclosure:Rack'', [''Cabinet''])]
   \<and> productNames (equipmentTypeChange_begin ''Enclosure'' ''a1'' ''Shelter'' demo_cached)
       = [(''Enclosure:Rack'', [''Cabinet''])]
   \<and> productNames (fst (handleEquipmentTypeChange ''Enclosure'' ''a1'' ''Shelter''
                           (demo_cached, demo_backend)))
       = [(''Enclosure:Rack'', [''Cabinet'']), (''Enclosure:Shelter'', [])]"
  by (simp add: demo_cached_def equipmentTypeChange_begin_def handleEquipmentTypeChange_def
        fetchProductNames_def select_product_names_def send_def demo_backend_def truthy_names_def
        Let_def)

section \<open>Looking up the product number\<close>

lemma fetchProductNumber_calls:
  "calls (snd (fetchProductNumber n (Some c) (Some e) b)) =
     calls b @ (if outage b (SelectProductNumber n (or_null c) (or_null e)) = None
                then [SelectProductNumber n (or_null c) (or_null e)]
                else [SelectProductNumber n (or_null c) (or_null e), SelectProductNumber n None None])"
  by (simp add: fetchProductNumber_def select_product_number_def send_def or_else_def
        split: option.splits)

lemma fetchProductNumber_down:
  assumes "outage b (SelectProductNumber n (or_null c) (or_null e)) = Some m"
    and "outage b (SelectProductNumber n None None) = Some m'"
  shows "fst (fetchProductNumber n (Some c) (Some e) b) = None"
  using assms
  by (simp add: fetchProductNumber_def select_product_number_def send_def or_else_def)

text \<open>
  C5, as the code has it. For a product name that is not empty, the handler first asks
  the catalog with the category and the equipment type as filters (a filter that is empty
  is left out), and asks again without filters exactly when the first request is answered
  with an error. When both fail the product name is set and nothing else
  changes: the product-number draft keeps the value it had, no error message is set, and
  no other field is touched.
\<close>

theorem product_number_lookup:
  assumes "v \<noteq> []"
  shows "let filtered = SelectProductNumber v (or_null tab) (or_null equipmentType);
             fallback = SelectProductNumber v None None;
             s' = fst (handleProductNameChange tab rowId v equipmentType (s, b));
             b' = snd (handleProductNameChange tab rowId v equipmentType (s, b))
         in sent b b' = (if outage b filtered = None then [filtered] else [filtered, fallback])
            \<and> (outage b filtered \<noteq> None \<and> outage b fallback \<noteq> None \<longrightarrow>
                  s' = s\<lparr>loadingDropdowns := None,
                          tabData := update_row tab rowId
                                       (\<lambda>row. row\<lparr>draft_product_name := Some v, editing := Some True\<rparr>)
                                       (tabData s)\<rparr>
                  \<and> error s' = error s
                  \<and> map draft_product_number (tab_rows s' tab)
                      = map draft_product_number (tab_rows s tab))"
proof -
  let ?filtered = "SelectProductNumber v (or_null tab) (or_null equipmentType)"
  let ?fallback = "SelectProductNumber v None None"
  let ?run = "handleProductNameChange tab rowId v equipmentType (s, b)"
  have b': "snd ?run = snd (fetchProductNumber v (Some tab) (Some equipmentType) b)"
    using assms by (simp add: handleProductNameChange_def Let_def case_prod_beta)
  have calls: "sent b (snd ?run) = (if outage b ?filtered = None then [?filtered]
                                    else [?filtered, ?fallback])"
    by (simp add: b' sent_def fetchProductNumber_calls)
  have down: "fst ?run = s\<lparr>loadingDropdowns := None,
                          tabData := update_row tab rowId
                                       (\<lambda>row. row\<lparr>draft_product_name := Some v, editing := Some True\<rparr>)
                                       (tabData s)\<rparr>"
    if "outage b ?filtered \<noteq> None" "outage b ?fallback \<noteq> None"
  proof -
    from that obtain m m' where "outage b ?filtered = Some m" "outage b ?fallback = Some m'"
      by auto
    then have "fst (fetchProductNumber v (Some tab) (Some equipmentType) b) = None"
      by (rule fetchProductNumber_down)
    then show ?thesis
      using assms by (simp add: handleProductNameChange_def Let_def case_prod_beta or_else_def)
  qed
  have same: "map draft_product_number
                (tab_rows (s\<lparr>loadingDropdowns := None,
                            tabData := update_row tab rowId
                               (\<lambda>row. row\<lparr>draft_product_name := Some v, editing := Some True\<rparr>)
                               (tabData s)\<rparr>) tab)
              = map draft_product_number (tab_rows s tab)"
    by (simp add: tab_rows_def update_row_def update_conv' comp_def if_distrib
          split: option.splits cong: if_cong)
  show ?thesis
    unfolding Let_def using calls down same by auto
qed

lemma demo_stale_rows:
  "tab_rows demo_stale ''Enclosure'' = [(toEditable demo_row)\<lparr>draft_product_number := Some ''OLD-1''\<rparr>]"
  by (simp add: demo_stale_def tab_rows_def)

theorem product_number_lookup_witness:
  "''Cabinet2'' \<noteq> []
   \<and> outage demo_down (SelectProductNumber ''Cabinet2'' (or_null ''Enclosure'') (or_null ''Rack'')) \<noteq> None
   \<and> outage demo_down (SelectProductNumber ''Cabinet2'' None None) \<noteq> None
   \<and> sent demo_down (snd (handleProductNameChange ''Enclosure'' ''a1'' ''Cabinet2'' ''Rack''
                              (demo_stale, demo_down)))
       = [SelectProductNumber ''Cabinet2'' (Some ''Enclosure'') (Some ''Rack''),
          SelectProductNumber ''Cabinet2'' None None]
   \<and> error (fst (handleProductNameChange ''Enclosure'' ''a1'' ''Cabinet2'' ''Rack''
                    (demo_stale, demo_down))) = error demo_stale
   \<and> sent demo_catalog (snd (handleProductNameChange ''Enclosure'' ''a1'' ''Cabinet2'' ''Rack''
                                (demo_stale, demo_catalog)))
       = [SelectProductNumber ''Cabinet2'' (Some ''Enclosure'') (Some ''Rack''),
          SelectProductNumber ''Cabinet2'' None None]"
proof -
  have v: "''Cabinet2'' \<noteq> []"
    by simp
  have down: "outage demo_down r = Some ''offline''" for r
    by (simp add: demo_down_def)
  have filtered: "outage demo_catalog
                    (SelectProductNumber ''Cabinet2'' (or_null ''Enclosure'') (or_null ''Rack''))
                  \<noteq> None"
    by (simp add: demo_catalog_def or_null_def)
  show ?thesis
    using product_number_lookup [OF v, of "''Enclosure''" "''Rack''" "''a1''" demo_stale demo_down]
      product_number_lookup [OF v, of "''Enclosure''" "''Rack''" "''a1''" demo_stale demo_catalog]
      filtered
    by (simp add: Let_def down or_null_def)
qed

text \<open>
  The claim as the specification states it fails when the lookup fails: no message is
  shown, and the product-number draft is not emptied but keeps its former value.
\<close>

theorem lookup_failure_counterexample:
  "outage demo_down (SelectProductNumber ''Cabinet2'' (Some ''Enclosure'') (Some ''Rack''))
     = Some ''offline''
   \<and> outage demo_down (SelectProductNumber ''Cabinet2'' None None) = Some ''offline''
   \<and> error demo_stale = None
   \<and> error (fst (handleProductNameChange ''Enclosure'' ''a1'' ''Cabinet2'' ''Rack''
                    (demo_stale, demo_down))) = None
   \<and> map draft_product_number
         (tab_rows (fst (handleProductNameChange ''Enclosure'' ''a1'' ''Cabinet2'' ''Rack''
                           (demo_stale, demo_down))) ''Enclosure'')
       = [Some ''OLD-1'']"
  by (simp add: handleProductNameChange_def fetchProductNumber_def select_product_number_def
        send_def demo_down_def demo_stale_def demo_page_def initial_def or_else_def or_null_def
        tab_rows_def update_row_def Let_def demo_row_id)

section \<open>Subscriptions: one channel of each kind\<close>









lemma wired_refreshTabData:
  "wired (refreshTabData tab q p) = wired p"
  by (cases p)
     (auto simp: refreshTabData_def select_assets_def send_def wired_def split: option.splits)








section \<open>Change notifications of other sites\<close>

lemma setup_listeners:
  assumes "wired (s, b)"
  shows "channels (snd (setupRealtimeSubscriptions q assets (s, b))) =
           [\<lparr>channel_ref = channel_count b, channel_name = ''asset-changes'',
             listeners = map (\<lambda>(tab, table).
                                \<lparr>on_event = ''*'', on_table = table,
                                 on_filter = Some (''site_id=eq.'' @ q),
                                 callback = RefreshTab tab q\<rparr>) TAB_TABLE_MAP,
             subscribed = True\<rparr>,
            \<lparr>channel_ref = Suc (channel_count b), channel_name = ''photo-changes'',
             listeners = [\<lparr>on_event = ''INSERT'', on_table = ''asset_photos'', on_filter = None,
                           callback = ReloadPhotos assets\<rparr>],
             subscribed = True\<rparr>]"
  using assms
  by (auto simp: wired_def setupRealtimeSubscriptions_def removeChannel_def open_channel_def
        Let_def split: option.splits)

lemma triggered_after_setup:
  assumes "wired (s, b)"
    and "channels b' = channels (snd (setupRealtimeSubscriptions q assets (s, b)))"
    and "cb \<in> set (triggered b' c)"
  shows "cb = ReloadPhotos assets \<or> (\<exists>tab. cb = RefreshTab tab q \<and> change_site c = Some q)"
proof -
  let ?asset = "\<lambda>(tab, table).
                  \<lparr>on_event = ''*'', on_table = table,
                   on_filter = Some (''site_id=eq.'' @ q),
                   callback = RefreshTab tab q\<rparr>"
  let ?photo = "\<lparr>on_event = ''INSERT'', on_table = ''asset_photos'', on_filter = None,
                  callback = ReloadPhotos assets\<rparr>"
  have "triggered b' c =
          map callback (filter (\<lambda>l. hears l c) (map ?asset TAB_TABLE_MAP))
            @ map callback (filter (\<lambda>l. hears l c) [?photo])"
    unfolding triggered_def assms(2) setup_listeners [OF assms(1)] by simp
  then consider l where "l \<in> set (map ?asset TAB_TABLE_MAP)" "hears l c" "cb = callback l"
    | "hears ?photo c" "cb = callback ?photo"
    using assms(3) by (auto split: if_splits)
  then show ?thesis
  proof cases
    case 1
    then obtain tab table where l: "l = ?asset (tab, table)"
      by auto
    have "change_site c = Some q"
      using 1(2) unfolding l by (auto simp: hears_def split: option.splits)
    then show ?thesis
      using 1(3) l by simp
  next
    case 2
    then show ?thesis by simp
  qed
qed

lemma sign_all_calls:
  "calls (snd (sign_all ps b)) = calls b @ map (\<lambda>p. CreateSignedUrl (storage_path p) 3600) ps"
  by (induction ps arbitrary: b)
     (simp_all add: create_signed_url_def send_def case_prod_beta split: option.splits)

lemma loadPhotosForAssets_calls:
  "\<exists>rs. calls (snd (loadPhotosForAssets assets p)) = calls (snd p) @ rs \<and> list_all (asks_site q) rs"
proof (cases p)
  case (Pair s b)
  show ?thesis
  proof (cases "assets = []")
    case True
    then show ?thesis
      using Pair by (simp add: loadPhotosForAssets_def)
  next
    case False
    let ?r = "SelectPhotos (uniq (map fst assets)) (map snd assets)"
    show ?thesis
    proof (cases "outage b ?r")
      case None
      let ?data = "filter (\<lambda>p. (case asset_table p of None \<Rightarrow> False
                                   | Some t \<Rightarrow> t \<in> set (uniq (map fst assets)))
                                  \<and> asset_id p \<in> set (map snd assets)) (asset_photos b)"
      have "calls (snd (loadPhotosForAssets assets p)) =
              calls b @ ?r # map (\<lambda>p. CreateSignedUrl (storage_path p) 3600) ?data"
        using Pair False None
        by (simp add: loadPhotosForAssets_def select_photos_def send_def case_prod_beta
              sign_all_calls)
      moreover have "list_all (asks_site q)
                       (?r # map (\<lambda>p. CreateSignedUrl (storage_path p) 3600) ?data)"
        by (simp add: asks_site_def list_all_iff)
      ultimately show ?thesis
        using Pair by auto
    next
      case (Some m)
      have "calls (snd (loadPhotosForAssets assets p)) = calls b @ [?r]"
        using Pair False Some
        by (simp add: loadPhotosForAssets_def select_photos_def send_def)
      moreover have "list_all (asks_site q) [?r]"
        by (simp add: asks_site_def)
      ultimately show ?thesis
        using Pair by auto
    qed
  qed
qed

lemma refreshTabData_calls:
  "\<exists>rs. calls (snd (refreshTabData tab q p)) = calls (snd p) @ rs \<and> list_all (asks_site q) rs"
proof (cases p)
  case (Pair s b)
  have "calls (snd (refreshTabData tab q (s, b))) = calls b @ [SelectAssets (table_of tab) q]"
    by (simp add: refreshTabData_backend)
  moreover have "list_all (asks_site q) [SelectAssets (table_of tab) q]"
    by (simp add: asks_site_def)
  ultimately show ?thesis
    using Pair by auto
qed

lemma callbacks_calls:
  assumes "\<forall>cb \<in> set cbs. cb = ReloadPhotos assets \<or> (\<exists>tab. cb = RefreshTab tab q)"
  shows "\<exists>rs. calls (snd (fold run_callback cbs p)) = calls (snd p) @ rs \<and> list_all (asks_site q) rs"
  using assms
proof (induction cbs arbitrary: p)
  case Nil
  then show ?case by simp
next
  case (Cons cb cbs)
  have "\<exists>rs. calls (snd (run_callback cb p)) = calls (snd p) @ rs \<and> list_all (asks_site q) rs"
    using Cons.prems loadPhotosForAssets_calls [of assets p q] refreshTabData_calls [of _ q p]
    by auto
  then obtain rs where one: "calls (snd (run_callback cb p)) = calls (snd p) @ rs"
    and rs: "list_all (asks_site q) rs"
    by blast
  from Cons.IH [of "run_callback cb p"] Cons.prems
  obtain rs' where rest: "calls (snd (fold run_callback cbs (run_callback cb p)))
                            = calls (snd (run_callback cb p)) @ rs'"
    and rs': "list_all (asks_site q) rs'"
    by auto
  have "calls (snd (fold run_callback (cb # cbs) p)) = calls (snd p) @ (rs @ rs')"
    by (simp add: rest one)
  moreover have "list_all (asks_site q) (rs @ rs')"
    using rs rs' by simp
  ultimately show ?case
    by blast
qed

lemma callbacks_frame:
  assumes "\<forall>cb \<in> set cbs. cb = ReloadPhotos assets"
  shows "tabData (fst (fold run_callback cbs p)) = tabData (fst p)
         \<and> tabCounts (fst (fold run_callback cbs p)) = tabCounts (fst p)"
  using assms
  by (induction cbs arbitrary: p) (simp_all add: loadPhotosForAssets_tabs)

text \<open>
  What the subscriptions of a search do for as long as they are the open ones, whatever
  the page shows by then: every listener on an asset table carries the filter of the site
  \<open>q\<close> they were opened for; a change notification for a row of another site runs no
  refresh, and leaves the tab data and the tab counts of the page as they are; and every
  request for rows of an asset table that a notification causes asks for the rows of \<open>q\<close>
  only.
\<close>

lemma foreign_change_ignored:
  assumes "wired (s, b)"
    and "channels b' = channels (snd (setupRealtimeSubscriptions q assets (s, b)))"
  shows "list_all (asks_site q) (sent b' (snd (notify c (s', b'))))
         \<and> (change_site c \<noteq> Some q \<longrightarrow>
               tabData (fst (notify c (s', b'))) = tabData s'
               \<and> tabCounts (fst (notify c (s', b'))) = tabCounts s')
         \<and> list_all (\<lambda>l. on_filter l = Some (''site_id=eq.'' @ q))
               (concat (map listeners (named ''asset-changes'' b')))"
proof -
  note trig = triggered_after_setup [OF assms]
  have "\<forall>cb \<in> set (triggered b' c). cb = ReloadPhotos assets \<or> (\<exists>tab. cb = RefreshTab tab q)"
    using trig by blast
  from callbacks_calls [OF this, of "(s', b')"]
  have asked: "list_all (asks_site q) (sent b' (snd (notify c (s', b'))))"
    by (auto simp: notify_def sent_def)
  have frame: "tabData (fst (notify c (s', b'))) = tabData s'
               \<and> tabCounts (fst (notify c (s', b'))) = tabCounts s'"
    if "change_site c \<noteq> Some q"
  proof -
    have "\<forall>cb \<in> set (triggered b' c). cb = ReloadPhotos assets"
      using trig that by blast
    from callbacks_frame [OF this, of "(s', b')"] show ?thesis
      by (simp add: notify_def)
  qed
  have filters: "list_all (\<lambda>l. on_filter l = Some (''site_id=eq.'' @ q))
                   (concat (map listeners (named ''asset-changes'' b')))"
    by (simp add: named_def assms(2) setup_listeners [OF assms(1)] TAB_TABLE_MAP_def)
  show ?thesis
    using asked frame filters by blast
qed

lemma demo_wired: "wired (initial, demo_site)"
  by (simp add: wired_def demo_site_def demo_backend_def)

lemma demo_live_channels:
  "channels demo_live =
     channels (snd (setupRealtimeSubscriptions ''W2052'' [(''enclosure_assets'', ''a1'')]
                      (initial, demo_site)))"
  by (simp add: demo_live_def)

lemma demo_triggered:
  "triggered demo_live demo_foreign = []"
  "triggered demo_live demo_home = [RefreshTab ''Enclosure'' ''W2052'']"
  by (simp_all add: triggered_def demo_live_channels setup_listeners [OF demo_wired] hears_def
        TAB_TABLE_MAP_def demo_foreign_def demo_home_def)

lemma foreign_change_ignored_example:
  "wired (initial, demo_site)
   \<and> change_site demo_foreign \<noteq> Some ''W2052''
   \<and> tabData (fst (notify demo_foreign (demo_page, demo_live))) = tabData demo_page
   \<and> tabCounts (fst (notify demo_foreign (demo_page, demo_live))) = tabCounts demo_page
   \<and> sent demo_live (snd (notify demo_foreign (demo_page, demo_live))) = []
   \<and> sent demo_live (snd (notify demo_home (demo_page, demo_live)))
       = [SelectAssets ''enclosure_assets'' ''W2052'']"
proof -
  have foreign: "change_site demo_foreign \<noteq> Some ''W2052''"
    by (simp add: demo_foreign_def)
  have tab: "table_of ''Enclosure'' = ''enclosure_assets''"
    by (simp add: table_of_def TAB_TABLE_MAP_def)
  have quiet: "sent demo_live (snd (notify demo_foreign (demo_page, demo_live))) = []"
    by (simp add: notify_def demo_triggered)
  have asked: "sent demo_live (snd (notify demo_home (demo_page, demo_live)))
                 = [SelectAssets ''enclosure_assets'' ''W2052'']"
    by (simp add: notify_def demo_triggered refreshTabData_backend tab)
  show ?thesis
    using demo_wired foreign quiet asked
      foreign_change_ignored [OF demo_wired demo_live_channels, of demo_foreign demo_page]
    by simp
qed

lemma handleSearch_done:
  assumes q: "trim (searchQuery s) \<noteq> []"
    and ok: "\<forall>tab \<in> set TABS. outage b (SelectAssets (table_of tab) (trim (searchQuery s))) = None"
  shows "handleSearch (s, b) =
     (let query = trim (searchQuery s);
          results = map (\<lambda>tab. (tab, order_desc (filter (\<lambda>r. site_id r = query)
                                               (asset_tables b (table_of tab))))) TABS;
          s2 = s\<lparr>loading := True, error := None, hasSearched := True, siteId := query,
                 tabData := fold (\<lambda>(tab, data). AList.update tab (map toEditable data)) results [],
                 tabCounts := fold (\<lambda>(tab, data). AList.update tab (length data)) results []\<rparr>;
          p3 = loadPhotosForAssets (all_assets results)
                 (s2, b\<lparr>calls := calls b @ map (\<lambda>tab. SelectAssets (table_of tab) query) TABS\<rparr>);
          p4 = setupRealtimeSubscriptions query (all_assets results) p3
      in ((fst p4)\<lparr>loading := False\<rparr>, snd p4))"
proof -
  let ?q = "trim (searchQuery s)"
  let ?rows = "\<lambda>tab. order_desc (filter (\<lambda>r. site_id r = ?q) (asset_tables b (table_of tab)))"
  have eq: "map (\<lambda>tab. (tab, case outage b (SelectAssets (table_of tab) ?q) of
                              Some m \<Rightarrow> Inl m | None \<Rightarrow> Inr (?rows tab))) TABS
            = map (\<lambda>tab. (tab, Inr (?rows tab))) TABS"
    by (rule map_cong) (use ok in auto)
  have all: "Promise_all (fst (fetch_tabs TABS ?q b)) = Inr (map (\<lambda>tab. (tab, ?rows tab)) TABS)"
    unfolding fetch_tabs_eq fst_conv eq by (rule Promise_all_ok)
  have b1: "snd (fetch_tabs TABS ?q b) =
              b\<lparr>calls := calls b @ map (\<lambda>tab. SelectAssets (table_of tab) ?q) TABS\<rparr>"
    by (simp add: fetch_tabs_eq)
  show ?thesis
    using q all b1
    by (simp add: handleSearch_def Let_def case_prod_beta del: fold_simps)
qed

lemma demo_searched:
  "siteId (fst (handleSearch (demo_query, demo_site))) = ''W2052''
   \<and> triggered (snd (handleSearch (demo_query, demo_site))) demo_home
       = [RefreshTab ''Enclosure'' ''W2052'']
   \<and> asset_tables (snd (handleSearch (demo_query, demo_site))) = asset_tables demo_site
   \<and> outage (snd (handleSearch (demo_query, demo_site))) = outage demo_site"
proof -
  have q: "trim (searchQuery demo_query) \<noteq> []"
    by (simp add: demo_query_trim)
  have ok: "\<forall>tab \<in> set TABS.
              outage demo_site (SelectAssets (table_of tab) (trim (searchQuery demo_query))) = None"
    by (simp add: demo_site_up)
  show ?thesis
    unfolding handleSearch_done [OF q ok]
    apply (simp add: demo_query_trim Let_def TABS_def table_of_def TAB_TABLE_MAP_def)
    apply (simp add: demo_site_def demo_backend_def order_desc_def
        demo_older_def demo_other_def demo_row_def null_first_def all_assets_def)
    apply (simp add: loadPhotosForAssets_def select_photos_def send_def uniq_def)
    apply (simp add: setupRealtimeSubscriptions_def open_channel_def Let_def TAB_TABLE_MAP_def
        triggered_def hears_def demo_home_def demo_query_def initial_def)
    done
qed

text \<open>
  C7 does not hold of the page as it is: the subscriptions of a search outlive it. The
  sample site \<open>W2052\<close> is searched with success; then the search box is emptied and
  searched again, which empties the tab data and the counts and resets the searched site,
  but closes no channel. A change notification for a row of \<open>W2052\<close>, which is not the
  searched site any more (there is none), is still heard: it sends a request for the rows
  of \<open>W2052\<close> and puts them and their count back into the page.
\<close>

theorem stale_subscription_refill:
  "siteId (fst (handleSearch (demo_query, demo_site))) = ''W2052''
   \<and> siteId (fst demo_cleared) = []
   \<and> hasSearched (fst demo_cleared) = False
   \<and> tabData (fst demo_cleared) = []
   \<and> tabCounts (fst demo_cleared) = []
   \<and> change_site demo_home = Some ''W2052''
   \<and> tabData (fst (notify demo_home demo_cleared))
       = [(''Enclosure'', [toEditable demo_row, toEditable demo_older])]
   \<and> tabCounts (fst (notify demo_home demo_cleared)) = [(''Enclosure'', 2)]
   \<and> sent (snd demo_cleared) (snd (notify demo_home demo_cleared))
       = [SelectAssets ''enclosure_assets'' ''W2052'']"
proof -
  obtain s1 b1 where p1: "handleSearch (demo_query, demo_site) = (s1, b1)"
    by (cases "handleSearch (demo_query, demo_site)")
  have b1: "triggered b1 demo_home = [RefreshTab ''Enclosure'' ''W2052'']"
    "asset_tables b1 = asset_tables demo_site" "outage b1 = outage demo_site"
    and s1: "siteId s1 = ''W2052''"
    using demo_searched by (simp_all add: p1)
  have cleared: "demo_cleared =
                   (s1\<lparr>searchQuery := ''  '', tabData := [], tabCounts := [], photos := [],
                       hasSearched := False, siteId := []\<rparr>, b1)"
    unfolding demo_cleared_def p1 by (simp add: handleSearch_def trim_def is_space_def)
  have tab: "table_of ''Enclosure'' = ''enclosure_assets''"
    by (simp add: table_of_def TAB_TABLE_MAP_def)
  have rows: "order_desc (filter (\<lambda>r. site_id r = ''W2052'')
                              (asset_tables demo_site ''enclosure_assets''))
                = [demo_row, demo_older]"
    using demo_site_enclosure by (simp add: tab)
  have home: "change_site demo_home = Some ''W2052''"
    by (simp add: demo_home_def)
  show ?thesis
    by (simp add: p1 s1 cleared notify_def b1 refreshTabData_def select_assets_def send_def
          demo_site_up tab rows home sent_def)
qed

section \<open>Uploading a second photo\<close>

lemma sign_all_eq:
  "sign_all ps b =
     (map (\<lambda>p. with_url p (signed b p)) ps,
      b\<lparr>calls := calls b @ map (\<lambda>p. CreateSignedUrl (storage_path p) 3600) ps\<rparr>)"
proof (induction ps arbitrary: b)
  case Nil
  then show ?case by simp
next
  case (Cons p ps)
  show ?case
    by (simp add: Cons.IH create_signed_url_def send_def signed_def split: option.splits)
qed

lemma group_lookup:
  "(case map_of (fold push_photo ps acc) k of None \<Rightarrow> [] | Some l \<Rightarrow> l) =
     (case map_of acc k of None \<Rightarrow> [] | Some l \<Rightarrow> l)
       @ filter (\<lambda>p. photo_key (asset_table p) (asset_id p) = k) ps"
  by (induction ps arbitrary: acc) (auto simp: push_photo_def Let_def update_conv')

lemma truncate_with_url: "PhotoRow.truncate (with_url p u) = p"
  by (simp add: with_url_def PhotoRow.defs AssetPhoto.defs)

lemma with_url_fields:
  "asset_table (with_url p u) = asset_table p" "asset_id (with_url p u) = asset_id p"
  by (simp_all add: with_url_def PhotoRow.defs AssetPhoto.defs)

lemma set_uniq: "set (uniq xs) = set xs"
  by (simp add: uniq_def)

lemma loadPhotosForAssets_photos:
  assumes "assets \<noteq> []"
    and "outage b (SelectPhotos (uniq (map fst assets)) (map snd assets)) = None"
  shows "map PhotoRow.truncate (getAssetPhotos (fst (loadPhotosForAssets assets (s, b))) t a) =
           filter (\<lambda>p. photo_key (asset_table p) (asset_id p) = t @ '':'' @ a)
             (filter (\<lambda>p. (case asset_table p of None \<Rightarrow> False | Some x \<Rightarrow> x \<in> fst ` set assets)
                           \<and> asset_id p \<in> snd ` set assets) (asset_photos b))"
  using assms group_lookup [of _ "[]" "t @ '':'' @ a"]
  by (simp add: loadPhotosForAssets_def select_photos_def send_def sign_all_eq getAssetPhotos_def
        filter_map comp_def with_url_fields truncate_with_url set_uniq cong: option.case_cong)

lemma all_assets_member:
  assumes "map_of td tab = Some rows" and "row \<in> set rows"
  shows "(table_of tab, row_id row) \<in> set (all_assets td)"
proof -
  have "(tab, rows) \<in> set td"
    using assms(1) by (rule map_of_SomeD)
  then show ?thesis
    using assms(2) by (force simp: all_assets_def)
qed

lemma handlePhotoUpload_done:
  assumes "\<not> photo_unique b"
    and "outage b (StorageUpload path f) = None"
    and "outage b (InsertPhoto payload) = None"
    and "path = storagePath (siteId s) (table_of tab) (row_id row) photoType f"
    and "payload = photo_payload (row_id row) (table_of tab) photoType path now user"
  shows "handlePhotoUpload (Some f) tab row photoType user now (s, b) =
           (let p = loadPhotosForAssets (all_assets (tabData s))
                      (s\<lparr>uploadingPhoto := Some (row_id row @ ''-'' @ photo_type_text photoType)\<rparr>,
                       b\<lparr>bucket := (bucket b)(path \<mapsto> file_bytes f),
                         calls := calls b @ [StorageUpload path f, InsertPhoto payload],
                         asset_photos := asset_photos b @ [new_photo (uuid b (issued b)) payload],
                         issued := Suc (issued b)\<rparr>)
            in ((fst p)\<lparr>uploadingPhoto := None\<rparr>, snd p))"
  using assms
  by (simp add: handlePhotoUpload_def storage_upload_def insert_photo_def send_def Let_def
        case_prod_beta)

lemma loadPhotosForAssets_backend:
  "asset_photos (snd (loadPhotosForAssets assets p)) = asset_photos (snd p)"
  "bucket (snd (loadPhotosForAssets assets p)) = bucket (snd p)"
  by (cases p; simp add: loadPhotosForAssets_def select_photos_def send_def case_prod_beta
        sign_all_eq split: option.splits)+

lemma getAssetPhotos_frame [simp]:
  "getAssetPhotos (s\<lparr>uploadingPhoto := x\<rparr>) t a = getAssetPhotos s t a"
  by (simp add: getAssetPhotos_def)

lemma table_of_colon: "CHR '':'' \<notin> set (table_of tab)"
  by (auto simp: table_of_def TAB_TABLE_MAP_def)

lemma all_assets_colon:
  assumes "t \<in> fst ` set (all_assets td)"
  shows "CHR '':'' \<notin> set t"
  using assms table_of_colon by (auto simp: all_assets_def)

lemma photo_key_inj:
  assumes "CHR '':'' \<notin> set t" and "CHR '':'' \<notin> set u" and "t @ '':'' @ a = u @ '':'' @ c"
  shows "t = u \<and> a = c"
proof -
  have cut: "takeWhile (\<lambda>x. x \<noteq> CHR '':'') (w @ '':'' @ z) = w" if "CHR '':'' \<notin> set w" for w z
    using that by (induction w) auto
  have "takeWhile (\<lambda>x. x \<noteq> CHR '':'') (t @ '':'' @ a) = t"
    using assms(1) by (rule cut)
  moreover have "takeWhile (\<lambda>x. x \<noteq> CHR '':'') (u @ '':'' @ c) = u"
    using assms(2) by (rule cut)
  ultimately have "t = u"
    using assms(3) by simp
  then show ?thesis
    using assms(3) by simp
qed

lemma same_asset_iff:
  assumes "T \<in> tables" and "A \<in> ids" and "\<And>t. t \<in> tables \<Longrightarrow> CHR '':'' \<notin> set t"
  shows "(photo_type q = ty
           \<and> photo_key (asset_table q) (asset_id q) = T @ '':'' @ A
           \<and> (case asset_table q of None \<Rightarrow> False | Some x \<Rightarrow> x \<in> tables)
           \<and> asset_id q \<in> ids) = same_asset T A ty q"
proof (cases "asset_table q")
  case None
  then show ?thesis
    by (simp add: same_asset_def)
next
  case (Some t)
  show ?thesis
  proof (cases "t \<in> tables")
    case True
    have "(t @ '':'' @ asset_id q = T @ '':'' @ A) = (t = T \<and> asset_id q = A)"
      using photo_key_inj [OF assms(3) [OF True] assms(3) [OF assms(1)]] by auto
    then show ?thesis
      using Some True assms(2) by (auto simp: same_asset_def photo_key_def)
  next
    case False
    then have "t \<noteq> T"
      using assms(1) by auto
    then show ?thesis
      using Some False by (simp add: same_asset_def)
  qed
qed

lemma upsert_count:
  "length (filter (same_pair a ty \<circ>
                     (\<lambda>q. if same_pair a ty q then q\<lparr>storage_path := x, public_url := y\<rparr> else q)) ps)
     = length (filter (same_pair a ty) ps)"
  by (induction ps) (auto simp: same_pair_def)

lemma handlePhotoUpload_refused:
  assumes "photo_unique b"
    and "outage b (StorageUpload path f) = None"
    and "outage b (InsertPhoto payload) = None"
    and "path = storagePath (siteId s) (table_of tab) (row_id row) photoType f"
    and "payload = photo_payload (row_id row) (table_of tab) photoType path now user"
    and "list_ex (same_asset (table_of tab) (row_id row) photoType) (asset_photos b)"
  shows "handlePhotoUpload (Some f) tab row photoType user now (s, b) =
           (s\<lparr>uploadingPhoto := None,
              error := Some (''Failed to upload photo: duplicate key value violates unique constraint'')\<rparr>,
            b\<lparr>bucket := (bucket b)(path \<mapsto> file_bytes f),
              calls := calls b @ [StorageUpload path f, InsertPhoto payload]\<rparr>)"
proof -
  have "list_ex (same_pair (row_id row) photoType) (asset_photos b)"
    using assms(6) by (auto simp: list_ex_iff same_asset_def same_pair_def)
  then have "list_ex (same_pair (pin_asset_id payload) (pin_photo_type payload)) (asset_photos b)"
    by (simp add: assms(5) photo_payload_def)
  then show ?thesis
    using assms(1-5)
    by (simp add: handlePhotoUpload_def storage_upload_def insert_photo_def send_def Let_def)
qed

text \<open>
  C3, as the code has it. The two uploads of the repository write the photo table in two
  ways, and which of them the table accepts depends on whether it is declared
  \<open>UNIQUE(asset_id, photo_type)\<close>. In both, the requests of the upload are answered, the
  asset has a photo of the type already, and the object at the path of the upload holds the
  bytes of the new file afterwards.

  On the site-search page \<open>handlePhotoUpload\<close> inserts. When the table is not declared
  unique, it appends a record that names the path of the upload and leaves the others as
  they are: the asset (its table and its id) has one record of the type more than before,
  two at least, and the photos of the row and the type that the page holds after its
  reload (\<open>getAssetPhotos\<close>, filtered by the type as the grid does) are exactly these
  records. When the table is declared unique, the insert is refused: no record is added,
  and the error is shown.

  In the asset drawer \<open>uploadPhoto\<close> upserts on \<open>(asset_id, photo_type)\<close>. When the table
  is declared unique, the records of the pair are updated in place (path and public URL)
  and there are as many of them as before. When it is not, the upsert is refused and the
  records are as they were.
\<close>

theorem second_photo_records:
  "(let table = table_of tab;
        path = storagePath (siteId s) table (row_id row) photoType f;
        payload = photo_payload (row_id row) table photoType path now user;
        new = new_photo (uuid b (issued b)) payload;
        p = handlePhotoUpload (Some f) tab row photoType user now (s, b)
    in outage b (StorageUpload path f) = None
       \<and> outage b (InsertPhoto payload) = None
       \<and> outage b (SelectPhotos (uniq (map fst (all_assets (tabData s))))
                      (map snd (all_assets (tabData s)))) = None
       \<and> row \<in> set (tab_rows s tab)
       \<and> list_ex (same_asset table (row_id row) photoType) (asset_photos b)
       \<longrightarrow> bucket (snd p) path = Some (file_bytes f)
           \<and> (if photo_unique b
               then asset_photos (snd p) = asset_photos b
                    \<and> error (fst p) =
                        Some (''Failed to upload photo: duplicate key value violates unique constraint'')
               else asset_photos (snd p) = asset_photos b @ [new]
                    \<and> storage_path new = path
                    \<and> filter (same_asset table (row_id row) photoType) (asset_photos (snd p))
                        = filter (same_asset table (row_id row) photoType) (asset_photos b) @ [new]
                    \<and> 2 \<le> length (filter (same_asset table (row_id row) photoType)
                                      (asset_photos (snd p)))
                    \<and> filter (\<lambda>q. photo_type q = photoType)
                          (map PhotoRow.truncate (getAssetPhotos (fst p) table (row_id row)))
                        = filter (same_asset table (row_id row) photoType) (asset_photos (snd p))))
   \<and> (let fileName = a_site_id asset @ ''/'' @ a_id asset @ ''/'' @ photo_type_text ty
                        @ ''.'' @ file_ext (file_name g);
          entry = \<lparr>pup_asset_id = a_id asset, pup_photo_type = ty,
                    pup_storage_path = fileName, pup_public_url = getPublicUrl fileName\<rparr>;
          r = uploadPhoto asset g ty d
      in outage d (StorageUpload fileName g) = None
         \<and> outage d (UpsertPhoto entry) = None
         \<and> list_ex (same_pair (a_id asset) ty) (asset_photos d)
         \<longrightarrow> bucket (snd r) fileName = Some (file_bytes g)
             \<and> (if photo_unique d
                 then fst r = None
                      \<and> asset_photos (snd r) =
                          map (\<lambda>q. if same_pair (a_id asset) ty q
                                    then q\<lparr>storage_path := fileName,
                                           public_url := Some (getPublicUrl fileName)\<rparr>
                                    else q) (asset_photos d)
                      \<and> length (filter (same_pair (a_id asset) ty) (asset_photos (snd r)))
                          = length (filter (same_pair (a_id asset) ty) (asset_photos d))
                 else fst r = Some ''there is no unique or exclusion constraint matching the ON CONFLICT specification''
                      \<and> asset_photos (snd r) = asset_photos d))"
proof -
  let ?table = "table_of tab"
  let ?path = "storagePath (siteId s) ?table (row_id row) photoType f"
  let ?payload = "photo_payload (row_id row) ?table photoType ?path now user"
  let ?new = "new_photo (uuid b (issued b)) ?payload"
  let ?mine = "same_asset ?table (row_id row) photoType"
  let ?p = "handlePhotoUpload (Some f) tab row photoType user now (s, b)"
  let ?assets = "all_assets (tabData s)"
  have site: "bucket (snd ?p) ?path = Some (file_bytes f)
           \<and> (if photo_unique b
               then asset_photos (snd ?p) = asset_photos b
                    \<and> error (fst ?p) =
                        Some (''Failed to upload photo: duplicate key value violates unique constraint'')
               else asset_photos (snd ?p) = asset_photos b @ [?new]
                    \<and> storage_path ?new = ?path
                    \<and> filter ?mine (asset_photos (snd ?p)) = filter ?mine (asset_photos b) @ [?new]
                    \<and> 2 \<le> length (filter ?mine (asset_photos (snd ?p)))
                    \<and> filter (\<lambda>q. photo_type q = photoType)
                          (map PhotoRow.truncate (getAssetPhotos (fst ?p) ?table (row_id row)))
                        = filter ?mine (asset_photos (snd ?p)))"
    if up: "outage b (StorageUpload ?path f) = None"
      and ins: "outage b (InsertPhoto ?payload) = None"
      and sel: "outage b (SelectPhotos (uniq (map fst ?assets)) (map snd ?assets)) = None"
      and shown: "row \<in> set (tab_rows s tab)"
      and old: "list_ex ?mine (asset_photos b)"
  proof (cases "photo_unique b")
    case True
    from handlePhotoUpload_refused [OF True up ins refl refl old]
    show ?thesis
      using True by simp
  next
    case False
    let ?s1 = "s\<lparr>uploadingPhoto := Some (row_id row @ ''-'' @ photo_type_text photoType)\<rparr>"
    let ?b2 = "b\<lparr>bucket := (bucket b)(?path \<mapsto> file_bytes f),
                 calls := calls b @ [StorageUpload ?path f, InsertPhoto ?payload],
                 asset_photos := asset_photos b @ [?new],
                 issued := Suc (issued b)\<rparr>"
    have run: "?p = ((fst (loadPhotosForAssets ?assets (?s1, ?b2)))\<lparr>uploadingPhoto := None\<rparr>,
                     snd (loadPhotosForAssets ?assets (?s1, ?b2)))"
      using handlePhotoUpload_done [OF False up ins refl refl] by (simp add: Let_def)
    obtain rows where rows: "map_of (tabData s) tab = Some rows" "row \<in> set rows"
      using shown by (cases "map_of (tabData s) tab") (auto simp: tab_rows_def)
    have member: "(?table, row_id row) \<in> set ?assets"
      using rows by (rule all_assets_member)
    then have some: "?assets \<noteq> []"
      by auto
    have sel2: "outage ?b2 (SelectPhotos (uniq (map fst ?assets)) (map snd ?assets)) = None"
      using sel by simp
    have new: "?mine ?new" "storage_path ?new = ?path"
      by (simp_all add: same_asset_def new_photo_def photo_payload_def)
    have stored: "asset_photos (snd ?p) = asset_photos b @ [?new]"
      by (simp add: run loadPhotosForAssets_backend)
    have store: "bucket (snd ?p) ?path = Some (file_bytes f)"
      by (simp add: run loadPhotosForAssets_backend)
    have mine: "filter ?mine (asset_photos (snd ?p)) = filter ?mine (asset_photos b) @ [?new]"
      by (simp add: stored new)
    obtain x where "x \<in> set (asset_photos b)" "?mine x"
      using old by (auto simp: list_ex_iff)
    then have "x \<in> set (filter ?mine (asset_photos b))"
      by simp
    then have "0 < length (filter ?mine (asset_photos b))"
      by (rule length_pos_if_in_set)
    then have "Suc 0 \<le> length (filter ?mine (asset_photos b))"
      by (rule Suc_leI)
    then have two: "2 \<le> length (filter ?mine (asset_photos (snd ?p)))"
      unfolding mine by simp
    have got: "map PhotoRow.truncate (getAssetPhotos (fst ?p) ?table (row_id row)) =
                 filter (\<lambda>p. photo_key (asset_table p) (asset_id p) = ?table @ '':'' @ row_id row)
                   (filter (\<lambda>p. (case asset_table p of None \<Rightarrow> False | Some x \<Rightarrow> x \<in> fst ` set ?assets)
                                 \<and> asset_id p \<in> snd ` set ?assets) (asset_photos ?b2))"
      using loadPhotosForAssets_photos [OF some sel2, of ?s1 ?table "row_id row"]
      by (simp add: run)
    have fst_in: "?table \<in> fst ` set ?assets" and snd_in: "row_id row \<in> snd ` set ?assets"
      using member by (force simp: image_iff)+
    have same: "(photo_type q = photoType
                  \<and> photo_key (asset_table q) (asset_id q) = ?table @ '':'' @ row_id row
                  \<and> (case asset_table q of None \<Rightarrow> False | Some x \<Rightarrow> x \<in> fst ` set ?assets)
                  \<and> asset_id q \<in> snd ` set ?assets) = ?mine q" for q
      using fst_in snd_in all_assets_colon by (rule same_asset_iff)
    have pick: "filter (\<lambda>q. photo_type q = photoType)
                  (filter (\<lambda>p. photo_key (asset_table p) (asset_id p) = ?table @ '':'' @ row_id row)
                     (filter (\<lambda>p. (case asset_table p of None \<Rightarrow> False
                                       | Some x \<Rightarrow> x \<in> fst ` set ?assets)
                                    \<and> asset_id p \<in> snd ` set ?assets) xs))
                = filter ?mine xs" for xs
    proof (induction xs)
      case Nil
      then show ?case by simp
    next
      case (Cons q xs)
      show ?case
        using Cons.IH same [of q] by (cases "?mine q") auto
    qed
    have listed: "filter (\<lambda>q. photo_type q = photoType)
                    (map PhotoRow.truncate (getAssetPhotos (fst ?p) ?table (row_id row)))
                  = filter ?mine (asset_photos (snd ?p))"
      unfolding got pick by (simp add: stored)
    show ?thesis
      using False store stored new(2) mine two listed by simp
  qed
  let ?fileName = "a_site_id asset @ ''/'' @ a_id asset @ ''/'' @ photo_type_text ty
                     @ ''.'' @ file_ext (file_name g)"
  let ?entry = "\<lparr>pup_asset_id = a_id asset, pup_photo_type = ty,
                 pup_storage_path = ?fileName, pup_public_url = getPublicUrl ?fileName\<rparr>"
  let ?r = "uploadPhoto asset g ty d"
  have drawer: "bucket (snd ?r) ?fileName = Some (file_bytes g)
             \<and> (if photo_unique d
                 then fst ?r = None
                      \<and> asset_photos (snd ?r) =
                          map (\<lambda>q. if same_pair (a_id asset) ty q
                                    then q\<lparr>storage_path := ?fileName,
                                           public_url := Some (getPublicUrl ?fileName)\<rparr>
                                    else q) (asset_photos d)
                      \<and> length (filter (same_pair (a_id asset) ty) (asset_photos (snd ?r)))
                          = length (filter (same_pair (a_id asset) ty) (asset_photos d))
                 else fst ?r = Some ''there is no unique or exclusion constraint matching the ON CONFLICT specification''
                      \<and> asset_photos (snd ?r) = asset_photos d)"
    if "outage d (StorageUpload ?fileName g) = None"
      and "outage d (UpsertPhoto ?entry) = None"
      and "list_ex (same_pair (a_id asset) ty) (asset_photos d)"
    using that
    by (simp add: uploadPhoto_def storage_upload_def upsert_photo_def send_def Let_def
          upsert_count)
  show ?thesis
    unfolding Let_def using site drawer by blast
qed


lemma demo_path:
  "storagePath (siteId demo_page) (table_of ''Enclosure'') (row_id (toEditable demo_row)) Serial
     demo_file = ''W2052/enclosure_assets/a1/serial/second.jpg''"
  by (simp add: storagePath_def demo_page_def initial_def table_of_def TAB_TABLE_MAP_def
        demo_row_id demo_file_def)

lemma demo_assets: "all_assets (tabData demo_page) = [(''enclosure_assets'', ''a1'')]"
  by (simp add: all_assets_def demo_page_def table_of_def TAB_TABLE_MAP_def demo_row_id)

theorem second_photo_records_witness:
  "photo_unique demo_photos = False
   \<and> toEditable demo_row \<in> set (tab_rows demo_page ''Enclosure'')
   \<and> list_ex (same_asset ''enclosure_assets'' ''a1'' Serial) (asset_photos demo_photos)
   \<and> map photo_id (asset_photos (snd demo_upload)) = [''p1'', ''u'']
   \<and> map storage_path (asset_photos (snd demo_upload))
       = [''W2052/enclosure_assets/a1/serial/first.jpg'',
          ''W2052/enclosure_assets/a1/serial/second.jpg'']
   \<and> map photo_id (filter (\<lambda>q. photo_type q = Serial)
                      (map PhotoRow.truncate
                         (getAssetPhotos (fst demo_upload) ''enclosure_assets'' ''a1'')))
       = [''p1'', ''u'']
   \<and> bucket (snd demo_upload) ''W2052/enclosure_assets/a1/serial/second.jpg'' = Some ''BBB''
   \<and> photo_unique demo_drawer = True
   \<and> list_ex (same_pair ''x1'' Serial) (asset_photos demo_drawer)
   \<and> map photo_id (asset_photos (snd (uploadPhoto demo_asset demo_file Serial demo_drawer)))
       = [''p1'']
   \<and> length (filter (same_pair ''x1'' Serial)
                (asset_photos (snd (uploadPhoto demo_asset demo_file Serial demo_drawer)))) = 1
   \<and> bucket (snd (uploadPhoto demo_asset demo_file Serial demo_drawer)) ''S1/x1/serial.jpg''
       = Some ''BBB''"
proof -
  let ?payload = "photo_payload ''a1'' ''enclosure_assets'' Serial
                    ''W2052/enclosure_assets/a1/serial/second.jpg''
                    ''2025-07-02T09:00:00.000Z'' (Some ''u-7'')"
  let ?name = "a_site_id demo_asset @ ''/'' @ a_id demo_asset @ ''/'' @ photo_type_text Serial
                 @ ''.'' @ file_ext (file_name demo_file)"
  have tab: "table_of ''Enclosure'' = ''enclosure_assets''"
    by (simp add: table_of_def TAB_TABLE_MAP_def)
  have several: "photo_unique demo_photos = False" and unique: "photo_unique demo_drawer = True"
    by (simp_all add: demo_photos_def demo_drawer_def demo_backend_def)
  have up: "outage demo_photos r = None" and up': "outage demo_drawer r = None" for r
    by (simp_all add: demo_photos_def demo_drawer_def demo_backend_def)
  have shown: "toEditable demo_row \<in> set (tab_rows demo_page ''Enclosure'')"
    by (simp add: demo_page_def tab_rows_def)
  have old: "list_ex (same_asset ''enclosure_assets'' ''a1'' Serial) (asset_photos demo_photos)"
    by (simp add: same_asset_def demo_photos_def demo_photo_def)
  have old': "list_ex (same_pair ''x1'' Serial) (asset_photos demo_drawer)"
    by (simp add: same_pair_def demo_drawer_def)
  have name: "?name = ''S1/x1/serial.jpg''"
    by (simp add: demo_asset_def demo_file_def file_ext_def)
  have rows: "asset_photos demo_photos = [demo_photo]" "issued demo_photos = 0"
    "uuid demo_photos 0 = ''u''"
    by (simp_all add: demo_photos_def demo_backend_def)
  have rows': "map photo_id (asset_photos demo_drawer) = [''p1'']"
    "length (filter (same_pair ''x1'' Serial) (asset_photos demo_drawer)) = 1"
    by (simp_all add: demo_drawer_def same_pair_def)
  note t = second_photo_records
             [where tab = "''Enclosure''" and s = demo_page and row = "toEditable demo_row"
                and photoType = Serial and f = demo_file and now = "''2025-07-02T09:00:00.000Z''"
                and user = "Some ''u-7''" and b = demo_photos and asset = demo_asset
                and ty = Serial and g = demo_file and d = demo_drawer,
              unfolded Let_def, folded demo_upload_def]
  have site: "bucket (snd demo_upload) ''W2052/enclosure_assets/a1/serial/second.jpg''
                = Some (file_bytes demo_file)
              \<and> asset_photos (snd demo_upload) = [demo_photo, new_photo ''u'' ?payload]
              \<and> filter (\<lambda>q. photo_type q = Serial)
                    (map PhotoRow.truncate (getAssetPhotos (fst demo_upload) ''enclosure_assets'' ''a1''))
                  = filter (same_asset ''enclosure_assets'' ''a1'' Serial) (asset_photos (snd demo_upload))"
    using t [THEN conjunct1, unfolded demo_path] several shown old
    by (simp add: up tab demo_row_id rows demo_path)
  have asked: "outage demo_drawer (StorageUpload ?name demo_file) = None
               \<and> outage demo_drawer
                    (UpsertPhoto \<lparr>pup_asset_id = a_id demo_asset, pup_photo_type = Serial,
                                   pup_storage_path = ?name, pup_public_url = getPublicUrl ?name\<rparr>)
                  = None
               \<and> list_ex (same_pair (a_id demo_asset) Serial) (asset_photos demo_drawer)"
    using old' by (simp add: up' demo_asset_def)
  note d = t [THEN conjunct2, THEN mp, OF asked, unfolded unique if_True]
  have drawer: "bucket (snd (uploadPhoto demo_asset demo_file Serial demo_drawer)) ''S1/x1/serial.jpg''
                  = Some (file_bytes demo_file)
                \<and> length (filter (same_pair ''x1'' Serial)
                     (asset_photos (snd (uploadPhoto demo_asset demo_file Serial demo_drawer)))) = 1"
    using d [THEN conjunct1] d [THEN conjunct2, THEN conjunct2, THEN conjunct2] rows'(2)
    unfolding name by (simp add: demo_asset_def)
  have ids': "map photo_id (asset_photos (snd (uploadPhoto demo_asset demo_file Serial demo_drawer)))
                = [''p1'']"
    unfolding d [THEN conjunct2, THEN conjunct2, THEN conjunct1]
    by (simp add: demo_drawer_def)
  have stored: "asset_photos (snd demo_upload) = [demo_photo, new_photo ''u'' ?payload]"
    using site by simp
  have ids: "map photo_id (asset_photos (snd demo_upload)) = [''p1'', ''u'']"
    "map storage_path (asset_photos (snd demo_upload))
       = [''W2052/enclosure_assets/a1/serial/first.jpg'',
          ''W2052/enclosure_assets/a1/serial/second.jpg'']"
    "map photo_id (filter (same_asset ''enclosure_assets'' ''a1'' Serial)
                     (asset_photos (snd demo_upload))) = [''p1'', ''u'']"
    unfolding stored
    by (simp_all add: demo_photo_def new_photo_def photo_payload_def demo_path same_asset_def tab
          demo_row_id)
  show ?thesis
    using several unique shown old old' site drawer ids ids'
    by (simp add: demo_path demo_file_def)
qed

text \<open>
  The claim as the specification states it fails for the upload of the asset drawer:
  \<open>uploadPhoto\<close> upserts on \<open>(asset_id, photo_type)\<close>, so the record that exists is updated
  in place and the pair still has one record. It fails for the upload of the site-search
  page too when the photo table is declared unique, as in the README: the object is
  written, the insert is refused, and the asset still has one record.
\<close>

theorem upsert_counterexample:
  "fst (uploadPhoto demo_asset demo_file Serial demo_drawer) = None
   \<and> map photo_id (filter (same_pair ''x1'' Serial) (asset_photos demo_drawer)) = [''p1'']
   \<and> map photo_id (filter (same_pair ''x1'' Serial)
                      (asset_photos (snd (uploadPhoto demo_asset demo_file Serial demo_drawer))))
       = [''p1'']
   \<and> map storage_path (asset_photos (snd (uploadPhoto demo_asset demo_file Serial demo_drawer)))
       = [''S1/x1/serial.jpg'']
   \<and> bucket (snd (uploadPhoto demo_asset demo_file Serial demo_drawer)) ''S1/x1/serial.jpg''
       = Some ''BBB''
   \<and> map photo_id
         (asset_photos (snd (handlePhotoUpload (Some demo_file) ''Enclosure'' (toEditable demo_row)
                               Serial (Some ''u-7'') ''2025-07-02T09:00:00.000Z''
                               (demo_page, demo_unique))))
       = [''p1'']
   \<and> error (fst (handlePhotoUpload (Some demo_file) ''Enclosure'' (toEditable demo_row)
                     Serial (Some ''u-7'') ''2025-07-02T09:00:00.000Z'' (demo_page, demo_unique)))
       = Some ''Failed to upload photo: duplicate key value violates unique constraint''
   \<and> bucket (snd (handlePhotoUpload (Some demo_file) ''Enclosure'' (toEditable demo_row)
                      Serial (Some ''u-7'') ''2025-07-02T09:00:00.000Z'' (demo_page, demo_unique)))
        ''W2052/enclosure_assets/a1/serial/second.jpg''
       = Some ''BBB''"
proof -
  have drawer: "fst (uploadPhoto demo_asset demo_file Serial demo_drawer) = None
   \<and> map photo_id (filter (same_pair ''x1'' Serial) (asset_photos demo_drawer)) = [''p1'']
   \<and> map photo_id (filter (same_pair ''x1'' Serial)
                      (asset_photos (snd (uploadPhoto demo_asset demo_file Serial demo_drawer))))
       = [''p1'']
   \<and> map storage_path (asset_photos (snd (uploadPhoto demo_asset demo_file Serial demo_drawer)))
       = [''S1/x1/serial.jpg'']
   \<and> bucket (snd (uploadPhoto demo_asset demo_file Serial demo_drawer)) ''S1/x1/serial.jpg''
       = Some ''BBB''"
    by (simp add: uploadPhoto_def storage_upload_def upsert_photo_def send_def demo_drawer_def
          demo_backend_def demo_asset_def demo_file_def file_ext_def same_pair_def Let_def
          getPublicUrl_def)
  have site: "handlePhotoUpload (Some demo_file) ''Enclosure'' (toEditable demo_row)
                Serial (Some ''u-7'') ''2025-07-02T09:00:00.000Z'' (demo_page, demo_unique)
              = (demo_page\<lparr>uploadingPhoto := None,
                   error := Some ''Failed to upload photo: duplicate key value violates unique constraint''\<rparr>,
                 demo_unique\<lparr>bucket := (bucket demo_unique)
                                 (''W2052/enclosure_assets/a1/serial/second.jpg'' \<mapsto> ''BBB''),
                   calls := [StorageUpload ''W2052/enclosure_assets/a1/serial/second.jpg'' demo_file,
                             InsertPhoto (photo_payload ''a1'' ''enclosure_assets'' Serial
                                            ''W2052/enclosure_assets/a1/serial/second.jpg''
                                            ''2025-07-02T09:00:00.000Z'' (Some ''u-7''))]\<rparr>)"
    using demo_path
    by (simp add: handlePhotoUpload_def storage_upload_def insert_photo_def send_def Let_def
          demo_unique_def demo_photos_def demo_backend_def demo_photo_def same_pair_def
          photo_payload_def demo_row_id table_of_def TAB_TABLE_MAP_def demo_file_def)
  have one: "map photo_id (asset_photos demo_unique) = [''p1'']"
    by (simp add: demo_unique_def demo_photos_def demo_photo_def)
  show ?thesis
    unfolding site using drawer one by simp
qed

end
